theory Spec2Isabelle
  imports Complex_Main "HOL-Library.Char_ord" "HOL-Library.List_Lexorder"
begin

section \<open>Python values the harness computes with\<close>

text \<open>
  The harness (\<^verbatim>\<open>python_test_interface.py\<close>) is modelled function by function.
  A Python \<^verbatim>\<open>str\<close> is a \<^typ>\<open>string\<close>; the model is about ASCII text (\<open>ascii\<close>
  below), on which \<^verbatim>\<open>strip\<close>, \<^verbatim>\<open>lower\<close> and \<^verbatim>\<open>int\<close> are as defined here. A
  Python \<^verbatim>\<open>int\<close> is an \<^typ>\<open>int\<close>. Every exception the code can raise is a value of
  type \<open>error\<close>: the exception class together with \<^verbatim>\<open>str(e)\<close>. All classes below
  derive from \<^verbatim>\<open>Exception\<close>.

  A dictionary key that the code reads with \<^verbatim>\<open>.get(key)\<close> is an \<open>option\<close>:
  \<^term>\<open>None\<close> is a missing key or a null value, which \<^verbatim>\<open>.get\<close> does not tell
  apart. The keys of a scenario document that are read by subscript or with a default
  tell the two apart and have the type \<open>yaml_key\<close>. The objects that the orchestrator
  returns have \<^verbatim>\<open>metadata.name\<close> and \<^verbatim>\<open>metadata.namespace\<close> as texts whenever the
  keys are there: the model has no null value for them.
\<close>

datatype exc_class =
    ValueError | OverflowError | KeyError | AssertionError | TimeoutError
  | RecursionError | FileNotFoundError | AttributeError | TypeError
  | OtherException string

datatype error = Raise exc_class string

fun exc_class_of :: "error \<Rightarrow> exc_class" where
  "exc_class_of (Raise k m) = k"

fun py_str_exc :: "error \<Rightarrow> string" where
  "py_str_exc (Raise k m) = m"

text \<open>Truthiness of an optional string: \<^verbatim>\<open>None\<close> and \<^verbatim>\<open>""\<close> are falsy.\<close>

fun truthy :: "string option \<Rightarrow> bool" where
  "truthy None = False"
| "truthy (Some s) = (s \<noteq> [])"

subsection \<open>String methods\<close>

text \<open>\<^verbatim>\<open>str.isspace\<close> on ASCII: TAB, LF, VT, FF, CR, FS, GS, RS, US and the space.\<close>

definition is_space :: "char \<Rightarrow> bool" where
  "is_space c = (c \<in> set [CHR 0x09, CHR 0x0A, CHR 0x0B, CHR 0x0C, CHR 0x0D,
                           CHR 0x1C, CHR 0x1D, CHR 0x1E, CHR 0x1F, CHR '' ''])"

definition lstrip :: "string \<Rightarrow> string" where
  "lstrip s = dropWhile is_space s"

definition strip :: "string \<Rightarrow> string" where
  "strip s = rev (dropWhile is_space (rev (dropWhile is_space s)))"

definition lower_char :: "char \<Rightarrow> char" where
  "lower_char c =
     (case map_of (zip ''ABCDEFGHIJKLMNOPQRSTUVWXYZ'' ''abcdefghijklmnopqrstuvwxyz'') c of
        Some d \<Rightarrow> d
      | None \<Rightarrow> c)"

definition lower :: "string \<Rightarrow> string" where
  "lower s = map lower_char s"

definition startswith :: "string \<Rightarrow> string \<Rightarrow> bool" where
  "startswith s p = (take (length p) s = p)"

definition endswith :: "string \<Rightarrow> string \<Rightarrow> bool" where
  "endswith s p = (length p \<le> length s \<and> drop (length s - length p) s = p)"

text \<open>\<^verbatim>\<open>s[:-k]\<close> for \<open>k > 0\<close>: the string without its last \<open>k\<close> characters (empty when
  it has fewer).\<close>

definition drop_last :: "nat \<Rightarrow> string \<Rightarrow> string" where
  "drop_last k s = take (length s - k) s"

text \<open>\<^verbatim>\<open>sep.join(xs)\<close>.\<close>

fun join :: "string \<Rightarrow> string list \<Rightarrow> string" where
  "join sep [] = []"
| "join sep [x] = x"
| "join sep (x # y # ys) = x @ sep @ join sep (y # ys)"

text \<open>\<^verbatim>\<open>needle in text\<close> for strings.\<close>

fun contains :: "string \<Rightarrow> string \<Rightarrow> bool" where
  "contains [] needle = (needle = [])"
| "contains (c # cs) needle = (startswith (c # cs) needle \<or> contains cs needle)"

subsection \<open>Decimal text of integers\<close>

definition digit_char :: "nat \<Rightarrow> char" where
  "digit_char d = ''0123456789'' ! d"

definition digit_value :: "char \<Rightarrow> nat option" where
  "digit_value c =
     map_of [(CHR ''0'', 0), (CHR ''1'', 1), (CHR ''2'', 2), (CHR ''3'', 3), (CHR ''4'', 4),
             (CHR ''5'', 5), (CHR ''6'', 6), (CHR ''7'', 7), (CHR ''8'', 8), (CHR ''9'', 9)] c"

text \<open>\<^verbatim>\<open>str(n)\<close> for an integer.\<close>

fun str_nat :: "nat \<Rightarrow> string" where
  "str_nat n = (if n < 10 then [digit_char n] else str_nat (n div 10) @ [digit_char (n mod 10)])"

declare str_nat.simps [simp del]

definition str_int :: "int \<Rightarrow> string" where
  "str_int i = (if i < 0 then CHR ''-'' # str_nat (nat (- i)) else str_nat (nat i))"

text \<open>\<^verbatim>\<open>str(x)\<close> of an optional string, as an f-string prints it.\<close>

fun str_opt :: "string option \<Rightarrow> string" where
  "str_opt None = ''None''"
| "str_opt (Some s) = s"

text \<open>
  \<^verbatim>\<open>repr(s)\<close> of a string: single quotes unless the text has a single quote and no
  double quote; backslash, the chosen quote, TAB, LF and CR are escaped, other control
  characters are written \<^verbatim>\<open>\xNN\<close>.
\<close>

definition hex_digit :: "nat \<Rightarrow> char" where
  "hex_digit d = ''0123456789abcdef'' ! d"

definition repr_char :: "char \<Rightarrow> char \<Rightarrow> string" where
  "repr_char q c =
     (if c = CHR 0x5C then [CHR 0x5C, CHR 0x5C]
      else if c = q then [CHR 0x5C, q]
      else if c = CHR 0x09 then [CHR 0x5C, CHR ''t'']
      else if c = CHR 0x0A then [CHR 0x5C, CHR ''n'']
      else if c = CHR 0x0D then [CHR 0x5C, CHR ''r'']
      else if (of_char c :: nat) < 32 \<or> (of_char c :: nat) = 127
        then [CHR 0x5C, CHR ''x'', hex_digit ((of_char c :: nat) div 16),
              hex_digit ((of_char c :: nat) mod 16)]
      else [c])"

definition repr_str :: "string \<Rightarrow> string" where
  "repr_str s =
     (let q = (if CHR 0x27 \<in> set s \<and> CHR 0x22 \<notin> set s then CHR 0x22 else CHR 0x27)
      in [q] @ concat (map (repr_char q) s) @ [q])"

text \<open>\<^verbatim>\<open>repr\<close> of a list of strings and of a list of optional strings.\<close>

definition repr_list :: "string list \<Rightarrow> string" where
  "repr_list xs = ''['' @ join '', '' (map repr_str xs) @ '']''"

fun repr_opt :: "string option \<Rightarrow> string" where
  "repr_opt None = ''None''"
| "repr_opt (Some s) = repr_str s"

definition repr_opt_list :: "string option list \<Rightarrow> string" where
  "repr_opt_list xs = ''['' @ join '', '' (map repr_opt xs) @ '']''"

subsection \<open>\<^verbatim>\<open>int(text)\<close>\<close>


definition is_c_space :: "char \<Rightarrow> bool" where
  "is_c_space c = (c \<in> set [CHR 0x09, CHR 0x0A, CHR 0x0B, CHR 0x0C, CHR 0x0D, CHR '' ''])"

definition int_strip :: "string \<Rightarrow> string" where
  "int_strip s = rev (dropWhile is_c_space (rev (dropWhile is_c_space s)))"

definition max_str_digits :: nat where
  "max_str_digits = 4300"

definition digit_count :: "string \<Rightarrow> nat" where
  "digit_count s = length (filter (\<lambda>c. digit_value c \<noteq> None) s)"

fun digits_value :: "nat \<Rightarrow> string \<Rightarrow> nat option" where
  "digits_value acc [] = Some acc"
| "digits_value acc (c # cs) =
     (case digit_value c of
        Some d \<Rightarrow> digits_value (10 * acc + d) cs
      | None \<Rightarrow>
          (if c = CHR ''_'' then
             (case cs of
                [] \<Rightarrow> None
              | c' # cs' \<Rightarrow>
                  (case digit_value c' of
                     Some d \<Rightarrow> digits_value (10 * acc + d) cs'
                   | None \<Rightarrow> None))
           else None))"

text \<open>The value of a run of digits and single inner underscores.\<close>

definition literal_value :: "string \<Rightarrow> nat option" where
  "literal_value s =
     (case s of
        [] \<Rightarrow> None
      | c # cs \<Rightarrow> (case digit_value c of Some d \<Rightarrow> digits_value d cs | None \<Rightarrow> None))"

text \<open>The text after the sign.\<close>

definition unsigned :: "string \<Rightarrow> string" where
  "unsigned s =
     (case s of
        [] \<Rightarrow> []
      | c # cs \<Rightarrow> if c = CHR ''-'' \<or> c = CHR ''+'' then cs else c # cs)"

text \<open>The integer that \<^verbatim>\<open>int(s)\<close> returns, or \<^term>\<open>None\<close> when it raises.\<close>

definition int_literal :: "string \<Rightarrow> int option" where
  "int_literal s =
     (let t = int_strip s; body = unsigned t in
      if max_str_digits < digit_count body then None
      else if t \<noteq> [] \<and> hd t = CHR ''-'' then map_option (\<lambda>n. - int n) (literal_value body)
      else map_option int (literal_value body))"

text \<open>
  The message of the \<^verbatim>\<open>ValueError\<close>. The interpreter reads the digits and
  underscores after the sign first: if they are well formed and more than 4300 digits, the
  error is that of the digit limit (worded as in CPython 3.12); in every other case it
  quotes the argument, with at most 200 characters of its \<^verbatim>\<open>repr\<close>.
\<close>

definition digit_run :: "string \<Rightarrow> string" where
  "digit_run s = takeWhile (\<lambda>c. digit_value c \<noteq> None \<or> c = CHR ''_'') s"

definition int_error_message :: "string \<Rightarrow> string" where
  "int_error_message s =
     (let run = digit_run (unsigned (int_strip s)) in
      if literal_value run \<noteq> None \<and> max_str_digits < digit_count run
      then ''Exceeds the limit (4300 digits) for integer string conversion: value has '' @
           str_nat (digit_count run) @
           '' digits; use sys.set_int_max_str_digits() to increase the limit''
      else ''invalid literal for int() with base 10: '' @ take 200 (repr_str s))"

definition py_int :: "string \<Rightarrow> error + int" where
  "py_int s =
     (case int_literal s of
        Some i \<Rightarrow> Inr i
      | None \<Rightarrow> Inl (Raise ValueError (int_error_message s)))"

text \<open>\<^verbatim>\<open>str(i)\<close> as an f-string calls it: an integer of more than 4300 digits raises
  \<^verbatim>\<open>ValueError\<close>.\<close>

definition format_int :: "int \<Rightarrow> error + string" where
  "format_int i =
     (if max_str_digits < length (str_nat (nat \<bar>i\<bar>))
      then Inl (Raise ValueError
                  (''Exceeds the limit (4300 digits) for integer string conversion; '' @
                   ''use sys.set_int_max_str_digits() to increase the limit''))
      else Inr (str_int i))"

subsection \<open>\<^verbatim>\<open>int(a / b)\<close> on integers\<close>

text \<open>
  \<^verbatim>\<open>a / b\<close> on Python integers is the IEEE double nearest to the exact quotient
  (ties to even), or \<^verbatim>\<open>OverflowError\<close> when that is beyond the doubles; \<^verbatim>\<open>int()\<close>
  of a double drops its fraction. The double is kept as mantissa and binary exponent.
  The quotients formed here are 0 or at least 1/1000 in size, so no subnormal arises.
\<close>

fun bit_length :: "nat \<Rightarrow> nat" where
  "bit_length n = (if n = 0 then 0 else Suc (bit_length (n div 2)))"

declare bit_length.simps [simp del]

text \<open>The \<open>k\<close> with \<open>2 ^ k \<le> a / b < 2 ^ (k + 1)\<close>, for positive \<open>a\<close> and \<open>b\<close>.\<close>

definition quotient_exponent :: "nat \<Rightarrow> nat \<Rightarrow> int" where
  "quotient_exponent a b =
     (let d = int (bit_length a) - int (bit_length b)
      in if b * 2 ^ nat d \<le> a * 2 ^ nat (- d) then d else d - 1)"

text \<open>Round \<open>n / d\<close> to the nearest natural number, ties to even.\<close>

definition round_half_even :: "nat \<Rightarrow> nat \<Rightarrow> nat" where
  "round_half_even n d =
     (let q = n div d; r = n mod d
      in if 2 * r < d then q
         else if d < 2 * r then q + 1
         else if even q then q else q + 1)"

text \<open>Mantissa \<open>m\<close> and exponent \<open>e\<close> of the double nearest to \<open>a / b\<close>: its value is
  \<open>m * 2 ^ e\<close>.\<close>

definition nearest_double :: "nat \<Rightarrow> nat \<Rightarrow> nat \<times> int" where
  "nearest_double a b =
     (let e = quotient_exponent a b - 52
      in (round_half_even (a * 2 ^ nat (- e)) (b * 2 ^ nat e), e))"

definition truediv_trunc_nat :: "nat \<Rightarrow> nat \<Rightarrow> error + nat" where
  "truediv_trunc_nat a b =
     (if a = 0 then Inr 0
      else
        (let (m, e) = nearest_double a b
         in if 0 \<le> e \<and> 2 ^ 1024 \<le> m * 2 ^ nat e
            then Inl (Raise OverflowError ''integer division result too large for a float'')
            else Inr (if 0 \<le> e then m * 2 ^ nat e else m div 2 ^ nat (- e))))"

text \<open>\<^verbatim>\<open>int(a / b)\<close> for a positive divisor \<open>b\<close>; the sign of \<open>a\<close> carries over.\<close>

definition truediv_trunc :: "int \<Rightarrow> nat \<Rightarrow> error + int" where
  "truediv_trunc a b =
     (case truediv_trunc_nat (nat \<bar>a\<bar>) b of
        Inl e \<Rightarrow> Inl e
      | Inr q \<Rightarrow> Inr (if a < 0 then - int q else int q))"

section \<open>Duration helpers\<close>

text \<open>
  \<^verbatim>\<open>parse_duration_to_seconds\<close> for a text argument (\<^verbatim>\<open>str(s)\<close> of a text is the
  text): the argument is stripped and lowered, then the suffixes are tried in the order
  \<^verbatim>\<open>ms\<close>, \<^verbatim>\<open>s\<close>, \<^verbatim>\<open>m\<close>, \<^verbatim>\<open>h\<close>.
\<close>

definition parse_duration_to_seconds :: "string \<Rightarrow> error + int" where
  "parse_duration_to_seconds s0 =
     (let s = lower (strip s0) in
      if endswith s ''ms'' then
        (case py_int (drop_last 2 s) of
           Inl e \<Rightarrow> Inl e
         | Inr n \<Rightarrow>
             (case truediv_trunc n 1000 of
                Inl e \<Rightarrow> Inl e
              | Inr q \<Rightarrow> Inr (max 1 q)))
      else if endswith s ''s'' then py_int (drop_last 1 s)
      else if endswith s ''m'' then
        (case py_int (drop_last 1 s) of Inl e \<Rightarrow> Inl e | Inr n \<Rightarrow> Inr (n * 60))
      else if endswith s ''h'' then
        (case py_int (drop_last 1 s) of Inl e \<Rightarrow> Inl e | Inr n \<Rightarrow> Inr (n * 3600))
      else py_int s)"

section \<open>The world outside the harness\<close>

text \<open>
  The orchestrator, the pod log API, the clock, the file system and the date library are
  not part of the repository. They are operations on a state of the outside world, of an
  arbitrary type \<open>'w\<close>: each call takes the world, and returns its result (or the
  exception it raised) with the world after the call. What the harness prints is kept
  beside the world, in \<open>stdout\<close>.
\<close>

text \<open>
  A value that YAML gives as text or as an integer, with its truthiness and with
  \<^verbatim>\<open>str()\<close>, which on an integer of more than 4300 digits raises \<^verbatim>\<open>ValueError\<close> and
  on \<^verbatim>\<open>None\<close> gives the text \<^verbatim>\<open>None\<close>.
\<close>

datatype scalar = YStr string | YInt int

fun py_str :: "scalar option \<Rightarrow> error + string" where
  "py_str None = Inr ''None''"
| "py_str (Some (YStr s)) = Inr s"
| "py_str (Some (YInt i)) = format_int i"

fun truthy_scalar :: "scalar option \<Rightarrow> bool" where
  "truthy_scalar None = False"
| "truthy_scalar (Some (YStr s)) = (s \<noteq> [])"
| "truthy_scalar (Some (YInt i)) = (i \<noteq> 0)"

text \<open>The workflow manifest is opaque to the harness: it is handed on as it is.\<close>

type_synonym manifest = string

text \<open>
  A status node, with the keys the harness reads: \<^verbatim>\<open>displayName\<close>, \<^verbatim>\<open>type\<close>,
  \<^verbatim>\<open>phase\<close>, \<^verbatim>\<open>podName\<close>, \<^verbatim>\<open>templateName\<close> and \<^verbatim>\<open>children\<close>. A key that is
  missing (or null) is \<^term>\<open>None\<close>.
\<close>

record node =
  n_displayName :: "string option"
  n_type :: "string option"
  n_phase :: "string option"
  n_podName :: "string option"
  n_templateName :: "string option"
  n_children :: "string list option"

text \<open>\<^verbatim>\<open>status.nodes\<close>: a dictionary in insertion order, from node identifier to node.\<close>

type_synonym node_map = "(string \<times> node) list"

record status =
  s_phase :: "string option"
  s_startedAt :: "string option"
  s_finishedAt :: "string option"
  s_nodes :: "node_map option"

record metadata =
  md_name :: "string option"
  md_namespace :: "string option"

record workflow =
  wf_metadata :: "metadata option"
  wf_status :: "status option"

text \<open>The container names of a pod: \<^verbatim>\<open>pod.spec.containers\<close> and
  \<^verbatim>\<open>pod.spec.init_containers\<close>, either of which may be \<^verbatim>\<open>None\<close>.\<close>

record pod =
  containers :: "string list option"
  init_containers :: "string list option"

text \<open>
  The expectations of a scenario (\<^verbatim>\<open>expect\<close>): \<^verbatim>\<open>workflowPhase\<close>, \<^verbatim>\<open>maxDuration\<close>
  and \<^verbatim>\<open>nodes\<close>; each entry of \<^verbatim>\<open>nodes\<close> has \<^verbatim>\<open>selector.displayName\<close>, a
  top-level \<^verbatim>\<open>displayName\<close>, \<^verbatim>\<open>phase\<close> and \<^verbatim>\<open>logs.contains\<close>.
\<close>

record selector =
  sel_displayName :: "string option"

record logs_spec =
  l_contains :: "string list option"

record node_expect =
  e_selector :: "selector option"
  e_displayName :: "string option"
  e_phase :: "string option"
  e_logs :: "logs_spec option"

record expect =
  x_workflowPhase :: "string option"
  x_maxDuration :: "scalar option"
  x_nodes :: "node_expect list option"

text \<open>
  A key of a scenario document that the code reads by subscript or with a default: the
  key is missing, its value is null, or it has a value. \<^verbatim>\<open>data.get(key, default)\<close>
  gives the default for a missing key only, and \<^verbatim>\<open>data[key]\<close> raises \<^verbatim>\<open>KeyError\<close>
  for a missing key only: a null value is handed on as \<^verbatim>\<open>None\<close>.
\<close>

datatype 'a yaml_key = Missing | Null | Given 'a

fun get_default :: "'a yaml_key \<Rightarrow> 'a \<Rightarrow> 'a option" where
  "get_default Missing d = Some d"
| "get_default Null d = None"
| "get_default (Given v) d = Some v"

fun subscript :: "string \<Rightarrow> 'a yaml_key \<Rightarrow> error + 'a option" where
  "subscript key Missing = Inl (Raise KeyError (repr_str key))"
| "subscript key Null = Inr None"
| "subscript key (Given v) = Inr (Some v)"

text \<open>
  A scenario document as \<^verbatim>\<open>yaml.safe_load\<close> returns it. A value that is there has the
  type that the scenario class declares for it (\<^verbatim>\<open>timeout\<close>: a text or an integer).
  \<^verbatim>\<open>workflow\<close> and \<^verbatim>\<open>workflowFile\<close> are read with \<^verbatim>\<open>.get(key)\<close>. A file that does
  not hold a mapping gives a value of another type, named here by its Python type
  (\<^verbatim>\<open>NoneType\<close> for an empty file, \<^verbatim>\<open>list\<close>, \<^verbatim>\<open>str\<close>, ...).
\<close>

record scenario_doc =
  d_name :: "string yaml_key"
  d_description :: "string yaml_key"
  d_tags :: "string list yaml_key"
  d_timeout :: "scalar yaml_key"
  d_namespace :: "string yaml_key"
  d_expect :: "expect yaml_key"
  d_workflow :: "manifest option"
  d_workflowFile :: "string option"

datatype document = Mapping scenario_doc | Not_mapping string

text \<open>The message of the \<^verbatim>\<open>AttributeError\<close> for a method that a value does not have.\<close>

definition no_attribute :: "string \<Rightarrow> string \<Rightarrow> error" where
  "no_attribute type_name attr =
     Raise AttributeError
       ([CHR 0x27] @ type_name @ [CHR 0x27] @ '' object has no attribute '' @
        [CHR 0x27] @ attr @ [CHR 0x27])"

text \<open>
  The operations of the outside world. \<open>recursion_depth\<close> is the number of nested calls
  of \<^verbatim>\<open>_find_podname_in_subtree\<close> that the interpreter allows. \<open>elapsed_seconds\<close> is
  the date arithmetic of \<^verbatim>\<open>assert_expectations\<close> (both stamps read by
  \<^verbatim>\<open>datetime.fromisoformat\<close>, then the difference in seconds) and \<open>format_1f\<close> the
  format \<^verbatim>\<open>:.1f\<close>. \<open>glob_yaml\<close> gives the sorted, resolved paths of the
  \<^verbatim>\<open>*.yaml\<close> files of a directory; \<open>path_sibling p f\<close> is
  \<^verbatim>\<open>(p.parent / f).resolve()\<close> and \<open>path_name p\<close> is \<^verbatim>\<open>p.name\<close>.

  The clock gives a double, which is a rational number; \<open>float_plus x i\<close> is the sum
  \<^verbatim>\<open>x + i\<close> of a double and an integer in double precision (\<^verbatim>\<open>OverflowError\<close> when the
  integer is too large for a double), and doubles are compared as the numbers they are.
  The namespace that the harness hands to the orchestrator may be \<^verbatim>\<open>None\<close>, from a
  scenario whose \<^verbatim>\<open>namespace\<close> is null.
\<close>

record 'w env =
  create_namespaced_custom_object ::
    "string \<Rightarrow> string \<Rightarrow> string option \<Rightarrow> string \<Rightarrow> manifest \<Rightarrow> 'w \<Rightarrow>
     (error + workflow) \<times> 'w"
  get_namespaced_custom_object ::
    "string \<Rightarrow> string \<Rightarrow> string option \<Rightarrow> string \<Rightarrow> string \<Rightarrow> 'w \<Rightarrow>
     (error + workflow) \<times> 'w"
  read_namespaced_pod :: "string \<Rightarrow> string \<Rightarrow> 'w \<Rightarrow> (error + pod) \<times> 'w"
  read_namespaced_pod_log :: "string \<Rightarrow> string \<Rightarrow> string \<Rightarrow> 'w \<Rightarrow> (error + string) \<times> 'w"
  time_time :: "'w \<Rightarrow> rat \<times> 'w"
  float_plus :: "rat \<Rightarrow> int \<Rightarrow> error + rat"
  time_sleep :: "nat \<Rightarrow> 'w \<Rightarrow> 'w"
  elapsed_seconds :: "string \<Rightarrow> string \<Rightarrow> error + rat"
  format_1f :: "rat \<Rightarrow> string"
  recursion_depth :: nat
  resolve_dir :: "string \<Rightarrow> string"
  path_sibling :: "string \<Rightarrow> string \<Rightarrow> string"
  path_name :: "string \<Rightarrow> string"
  glob_yaml :: "string \<Rightarrow> 'w \<Rightarrow> string list \<times> 'w"
  load_yaml_scenario :: "string \<Rightarrow> 'w \<Rightarrow> (error + document) \<times> 'w"
  load_yaml_manifest :: "string \<Rightarrow> 'w \<Rightarrow> (error + manifest) \<times> 'w"
  load_kube_config :: "'w \<Rightarrow> (error + unit) \<times> 'w"
  load_incluster_config :: "'w \<Rightarrow> (error + unit) \<times> 'w"

text \<open>The standard output takes every line that is printed to it.\<close>

record 'w state =
  world :: 'w
  stdout :: "string list"

definition print :: "string \<Rightarrow> 'w state \<Rightarrow> 'w state" where
  "print line st = st\<lparr>stdout := stdout st @ [line]\<rparr>"

text \<open>One call of an outside operation.\<close>

definition call :: "('w \<Rightarrow> 'a \<times> 'w) \<Rightarrow> 'w state \<Rightarrow> 'a \<times> 'w state" where
  "call f st = (case f (world st) of (r, w) \<Rightarrow> (r, st\<lparr>world := w\<rparr>))"

definition ARGO_GROUP :: string where "ARGO_GROUP = ''argoproj.io''"
definition ARGO_VERSION :: string where "ARGO_VERSION = ''v1alpha1''"
definition ARGO_PLURAL :: string where "ARGO_PLURAL = ''workflows''"

section \<open>Orchestrator operations\<close>

definition submit_workflow ::
  "'w env \<Rightarrow> string option \<Rightarrow> manifest \<Rightarrow> 'w state \<Rightarrow> (error + workflow) \<times> 'w state" where
  "submit_workflow env namespace body st =
     call (create_namespaced_custom_object env ARGO_GROUP ARGO_VERSION namespace ARGO_PLURAL body) st"

definition get_workflow ::
  "'w env \<Rightarrow> string option \<Rightarrow> string \<Rightarrow> 'w state \<Rightarrow> (error + workflow) \<times> 'w state" where
  "get_workflow env namespace name st =
     call (get_namespaced_custom_object env ARGO_GROUP ARGO_VERSION namespace ARGO_PLURAL name) st"

text \<open>\<^verbatim>\<open>wf.get("status") or {}\<close>, and the phase read from it,
  \<^verbatim>\<open>(...).get("phase") or "Unknown"\<close>.\<close>

definition empty_status :: status where
  "empty_status = \<lparr>s_phase = None, s_startedAt = None, s_finishedAt = None, s_nodes = None\<rparr>"

definition status_of :: "workflow \<Rightarrow> status" where
  "status_of obj = (case wf_status obj of None \<Rightarrow> empty_status | Some s \<Rightarrow> s)"

definition phase_or_unknown :: "workflow \<Rightarrow> string" where
  "phase_or_unknown obj =
     (case s_phase (status_of obj) of
        None \<Rightarrow> ''Unknown''
      | Some p \<Rightarrow> if p = [] then ''Unknown'' else p)"

text \<open>
  \<^verbatim>\<open>wait_workflow\<close>. One round of its \<^verbatim>\<open>while\<close> loop, test and body, either
  ends the function (with the workflow, or with an exception) or goes round again with
  the phase printed last and the state after \<^verbatim>\<open>time.sleep(2)\<close>.
\<close>

definition timeout_message :: "string option \<Rightarrow> string \<Rightarrow> string \<Rightarrow> string" where
  "timeout_message namespace name seconds =
     ''Workflow '' @ str_opt namespace @ ''/'' @ name @ '' did not finish within '' @
     seconds @ ''s''"

text \<open>The \<^verbatim>\<open>raise\<close> after the loop: the f-string is built first.\<close>

definition timeout_error :: "string option \<Rightarrow> string \<Rightarrow> int \<Rightarrow> error" where
  "timeout_error namespace name timeout_seconds =
     (case format_int timeout_seconds of
        Inl e \<Rightarrow> e
      | Inr seconds \<Rightarrow> Raise TimeoutError (timeout_message namespace name seconds))"

datatype 'w round = Done "(error + workflow) \<times> 'w state" | Again "string option" "'w state"

definition poll_round ::
  "'w env \<Rightarrow> string option \<Rightarrow> string \<Rightarrow> int \<Rightarrow> rat \<Rightarrow> string option \<Rightarrow> 'w state \<Rightarrow> 'w round" where
  "poll_round env namespace name timeout_seconds deadline last_phase st =
     (case call (time_time env) st of
        (now, st1) \<Rightarrow>
          if now < deadline then
            (case get_workflow env namespace name st1 of
               (Inl e, st2) \<Rightarrow> Done (Inl e, st2)
             | (Inr obj, st2) \<Rightarrow>
                 (let phase = phase_or_unknown obj;
                      st3 = (if Some phase \<noteq> last_phase
                             then print (''    phase='' @ phase) st2 else st2);
                      last_phase' = (if Some phase \<noteq> last_phase then Some phase else last_phase)
                  in if phase \<in> set [''Succeeded'', ''Failed'', ''Error'']
                     then Done (Inr obj, st3)
                     else Again last_phase' (st3\<lparr>world := time_sleep env 2 (world st3)\<rparr>)))
          else Done (Inl (timeout_error namespace name timeout_seconds), st1))"

text \<open>
  The loop may go round for ever if the clock never reaches the deadline, so it is a
  partial function: \<^term>\<open>None\<close> is a run that does not return.
\<close>

partial_function (option) wait_loop ::
  "'w env \<Rightarrow> string option \<Rightarrow> string \<Rightarrow> int \<Rightarrow> rat \<Rightarrow> string option \<Rightarrow> 'w state \<Rightarrow>
   ((error + workflow) \<times> 'w state) option" where
  "wait_loop env namespace name timeout_seconds deadline last_phase st =
     (case poll_round env namespace name timeout_seconds deadline last_phase st of
        Done r \<Rightarrow> Some r
      | Again last_phase' st' \<Rightarrow>
          wait_loop env namespace name timeout_seconds deadline last_phase' st')"

text \<open>The outcome of the first \<open>k\<close> rounds of the loop.\<close>

fun rounds ::
  "'w env \<Rightarrow> string option \<Rightarrow> string \<Rightarrow> int \<Rightarrow> rat \<Rightarrow> nat \<Rightarrow> string option \<Rightarrow> 'w state \<Rightarrow> 'w round" where
  "rounds env namespace name timeout_seconds deadline 0 last_phase st = Again last_phase st"
| "rounds env namespace name timeout_seconds deadline (Suc k) last_phase st =
     (case poll_round env namespace name timeout_seconds deadline last_phase st of
        Done r \<Rightarrow> Done r
      | Again last_phase' st' \<Rightarrow>
          rounds env namespace name timeout_seconds deadline k last_phase' st')"

text \<open>
  \<^verbatim>\<open>wait_workflow\<close> itself: the deadline \<^verbatim>\<open>time.time() + timeout_seconds\<close>, then the
  loop with \<^verbatim>\<open>last_phase = None\<close>.
\<close>

definition wait_workflow ::
  "'w env \<Rightarrow> string option \<Rightarrow> string \<Rightarrow> int \<Rightarrow> 'w state \<Rightarrow>
   ((error + workflow) \<times> 'w state) option" where
  "wait_workflow env namespace name timeout_seconds st =
     (case call (time_time env) st of
        (now, st1) \<Rightarrow>
          (case float_plus env now timeout_seconds of
             Inl e \<Rightarrow> Some (Inl e, st1)
           | Inr deadline \<Rightarrow>
               wait_loop env namespace name timeout_seconds deadline None st1))"

section \<open>Pod logs\<close>

text \<open>The local function \<^verbatim>\<open>_order\<close> of \<^verbatim>\<open>read_pod_logs\<close>: \<^verbatim>\<open>main\<close> first, the
  rest afterwards.\<close>

definition order_names :: "string list \<Rightarrow> string list" where
  "order_names names =
     (if ''main'' \<in> set names then ''main'' # filter (\<lambda>n. n \<noteq> ''main'') names else names)"

text \<open>
  One pass of a \<^verbatim>\<open>for cname in ...\<close> loop of \<^verbatim>\<open>read_pod_logs\<close>: the log of the
  container is read, a failed read becomes a placeholder with the exception's text, and
  the section (\<open>section_text\<close>, the f-string of the loop) is appended to
  \<open>chunks\<close>. \<open>label\<close> is \<^verbatim>\<open>initContainer\<close> or
  \<^verbatim>\<open>container\<close>, \<open>what\<close> the wording of the placeholder.
\<close>

definition section_text :: "string \<Rightarrow> string \<Rightarrow> string \<Rightarrow> string" where
  "section_text label cname log_text =
     '' --- '' @ label @ '': '' @ cname @ '' --- '' @ log_text"

definition read_chunk ::
  "'w env \<Rightarrow> string \<Rightarrow> string \<Rightarrow> string \<Rightarrow> string \<Rightarrow> string \<Rightarrow> string list \<times> 'w state \<Rightarrow>
   string list \<times> 'w state" where
  "read_chunk env namespace pod_name label what cname acc =
     (case acc of
        (chunks, st) \<Rightarrow>
          (case call (read_namespaced_pod_log env pod_name namespace cname) st of
             (r, st') \<Rightarrow>
               (let log_text =
                      (case r of
                         Inr text \<Rightarrow> text
                       | Inl e \<Rightarrow> ''<failed to read '' @ what @ '' logs: '' @ py_str_exc e @ ''>'')
                in (chunks @ [section_text label cname log_text], st'))))"

definition read_pod_logs ::
  "'w env \<Rightarrow> string \<Rightarrow> string \<Rightarrow> 'w state \<Rightarrow> (error + string) \<times> 'w state" where
  "read_pod_logs env namespace pod_name st =
     (case call (read_namespaced_pod env pod_name namespace) st of
        (Inl e, st1) \<Rightarrow> (Inl e, st1)
      | (Inr p, st1) \<Rightarrow>
          (let cs = (case containers p of None \<Rightarrow> [] | Some xs \<Rightarrow> xs);
               ics = (case init_containers p of None \<Rightarrow> [] | Some xs \<Rightarrow> xs);
               ordered_containers = order_names cs;
               ordered_inits = order_names ics;
               acc1 = foldl (\<lambda>acc cname.
                        read_chunk env namespace pod_name ''initContainer'' ''init container''
                          cname acc)
                      ([], st1) ordered_inits;
               acc2 = foldl (\<lambda>acc cname.
                        read_chunk env namespace pod_name ''container'' ''container'' cname acc)
                      acc1 ordered_containers
           in (Inr (lstrip (concat (fst acc2))), snd acc2)))"

section \<open>From a step's display name to its pod\<close>

definition empty_node :: node where
  "empty_node = \<lparr>n_displayName = None, n_type = None, n_phase = None, n_podName = None,
                  n_templateName = None, n_children = None\<rparr>"

text \<open>\<^verbatim>\<open>nodes.get(node_id) or {}\<close>.\<close>

definition get_node :: "node_map \<Rightarrow> string \<Rightarrow> node" where
  "get_node nodes node_id = (case map_of nodes node_id of None \<Rightarrow> empty_node | Some n \<Rightarrow> n)"

text \<open>\<^verbatim>\<open>n.get("children") or []\<close>.\<close>

definition children_of :: "node \<Rightarrow> string list" where
  "children_of n = (case n_children n of None \<Rightarrow> [] | Some cs \<Rightarrow> cs)"

definition nodes_with_display_name :: "node_map \<Rightarrow> string \<Rightarrow> string list" where
  "nodes_with_display_name nodes display_name =
     map fst (filter (\<lambda>(node_id, n). n_displayName n = Some display_name) nodes)"

definition derive_pod_name_from_pod_node ::
  "string \<Rightarrow> string \<Rightarrow> string option \<Rightarrow> string option" where
  "derive_pod_name_from_pod_node node_id wf_name template_name =
     (case template_name of
        None \<Rightarrow> None
      | Some t \<Rightarrow>
          if t = [] then None
          else
            (let prefix = wf_name @ ''-'' in
             if \<not> startswith node_id prefix then None
             else
               (let suffix = drop (length prefix) node_id in
                if suffix = [] then None
                else Some (wf_name @ ''-'' @ t @ ''-'' @ suffix))))"

definition pod_name_from_node :: "node_map \<Rightarrow> string \<Rightarrow> string \<Rightarrow> string option" where
  "pod_name_from_node nodes node_id wf_name =
     (let n = get_node nodes node_id in
      if truthy (n_podName n) then n_podName n
      else if n_type n = Some ''Pod''
        then derive_pod_name_from_pod_node node_id wf_name (n_templateName n)
      else None)"

text \<open>
  A \<^verbatim>\<open>for\<close> loop that returns the first truthy result of \<open>f\<close> and \<^verbatim>\<open>None\<close> when
  there is none; an exception raised by \<open>f\<close> ends it.
\<close>

fun first_found :: "('a \<Rightarrow> error + string option) \<Rightarrow> 'a list \<Rightarrow> error + string option" where
  "first_found f [] = Inr None"
| "first_found f (x # xs) =
     (case f x of
        Inl e \<Rightarrow> Inl e
      | Inr r \<Rightarrow> if truthy r then Inr r else first_found f xs)"

text \<open>
  \<^verbatim>\<open>_find_podname_in_subtree\<close>. The function calls itself on each child and keeps no
  record of the nodes it has been at. The first argument is the number of nested calls
  the interpreter still allows: Python ends a deeper recursion with
  \<^verbatim>\<open>RecursionError\<close>.
\<close>

primrec find_podname_in_subtree ::
  "nat \<Rightarrow> node_map \<Rightarrow> string \<Rightarrow> string \<Rightarrow> error + string option" where
  "find_podname_in_subtree 0 nodes node_id wf_name =
     Inl (Raise RecursionError ''maximum recursion depth exceeded'')"
| "find_podname_in_subtree (Suc depth) nodes node_id wf_name =
     (let direct = pod_name_from_node nodes node_id wf_name in
      if truthy direct then Inr direct
      else first_found (\<lambda>child_id. find_podname_in_subtree depth nodes child_id wf_name)
             (children_of (get_node nodes node_id)))"

text \<open>
  What a depth-first search is to return, stated apart from the code: \<open>preorder\<close> lists
  the nodes of the subtree of a node in the order in which a depth-first walk comes to
  them, each node before its children and the children in their declared order, down to
  a given number of levels (a node with several parents is listed once under each);
  \<open>first_some\<close> is the first result that a list yields.
\<close>

primrec preorder :: "nat \<Rightarrow> node_map \<Rightarrow> string \<Rightarrow> string list" where
  "preorder 0 nodes node_id = []"
| "preorder (Suc depth) nodes node_id =
     node_id # concat (map (preorder depth nodes) (children_of (get_node nodes node_id)))"

fun first_some :: "('a \<Rightarrow> 'b option) \<Rightarrow> 'a list \<Rightarrow> 'b option" where
  "first_some f [] = None"
| "first_some f (x # xs) = (case f x of Some y \<Rightarrow> Some y | None \<Rightarrow> first_some f xs)"

text \<open>The two messages of \<^verbatim>\<open>resolve_pod_name\<close>.\<close>

definition available_display_names :: "node_map \<Rightarrow> string list" where
  "available_display_names nodes =
     sort (remdups (map (\<lambda>(node_id, n). str_opt (n_displayName n))
                       (filter (\<lambda>(node_id, n). truthy (n_displayName n)) nodes)))"

definition not_found_message :: "string \<Rightarrow> string list \<Rightarrow> string" where
  "not_found_message display_name available =
     ''Node '' @ [CHR 0x27] @ display_name @ [CHR 0x27] @ '' not found in status.nodes. '' @
     ''Available displayNames (sample): '' @ repr_list (take 30 available)"

definition debug_line :: "node_map \<Rightarrow> string \<Rightarrow> string" where
  "debug_line nodes node_id =
     (let n = get_node nodes node_id in
      ''id='' @ node_id @ '' type='' @ str_opt (n_type n) @
      '' templateName='' @ str_opt (n_templateName n) @
      '' phase='' @ str_opt (n_phase n) @
      '' children='' @ str_nat (length (children_of n)))"

definition unresolved_message :: "node_map \<Rightarrow> string \<Rightarrow> string list \<Rightarrow> string" where
  "unresolved_message nodes display_name start_ids =
     ''Node '' @ [CHR 0x27] @ display_name @ [CHR 0x27] @
     '' found, but podName not resolvable via children.'' @ [CHR 0x0A] @ ''  - '' @
     join ([CHR 0x0A] @ ''  - '') (map (debug_line nodes) start_ids)"

definition resolve_pod_name :: "nat \<Rightarrow> node_map \<Rightarrow> string \<Rightarrow> string \<Rightarrow> error + string" where
  "resolve_pod_name depth nodes wf_name display_name =
     (let start_ids = nodes_with_display_name nodes display_name in
      if start_ids = [] then
        Inl (Raise AssertionError
               (not_found_message display_name (available_display_names nodes)))
      else
        (case first_found (\<lambda>node_id. find_podname_in_subtree depth nodes node_id wf_name)
                start_ids of
           Inl e \<Rightarrow> Inl e
         | Inr (Some pod) \<Rightarrow> Inr pod
         | Inr None \<Rightarrow>
             Inl (Raise AssertionError (unresolved_message nodes display_name start_ids))))"

section \<open>Assertions\<close>

text \<open>\<^verbatim>\<open>wf["metadata"][key]\<close>: a missing key raises \<^verbatim>\<open>KeyError\<close>.\<close>

definition metadata_field ::
  "workflow \<Rightarrow> (metadata \<Rightarrow> string option) \<Rightarrow> string \<Rightarrow> error + string" where
  "metadata_field obj field key =
     (case wf_metadata obj of
        None \<Rightarrow> Inl (Raise KeyError (repr_str ''metadata''))
      | Some md \<Rightarrow>
          (case field md of
             None \<Rightarrow> Inl (Raise KeyError (repr_str key))
           | Some v \<Rightarrow> Inr v))"

text \<open>Step 1 of \<^verbatim>\<open>assert_expectations\<close>: the workflow phase.\<close>

definition check_workflow_phase :: "status \<Rightarrow> expect \<Rightarrow> error option" where
  "check_workflow_phase st ex =
     (if truthy (x_workflowPhase ex) \<and> s_phase st \<noteq> x_workflowPhase ex
      then Some (Raise AssertionError
                  (''Expected workflowPhase='' @ str_opt (x_workflowPhase ex) @ '', got '' @
                   str_opt (s_phase st)))
      else None)"

text \<open>Step 2: the duration, checked only when the bound and both stamps are there.\<close>

definition check_max_duration :: "'w env \<Rightarrow> status \<Rightarrow> expect \<Rightarrow> error option" where
  "check_max_duration env st ex =
     (case (x_maxDuration ex, s_startedAt st, s_finishedAt st) of
        (Some max_d, Some started, Some finished) \<Rightarrow>
          if truthy_scalar (Some max_d) \<and> started \<noteq> [] \<and> finished \<noteq> [] then
            (case elapsed_seconds env started finished of
               Inl e \<Rightarrow> Some e
             | Inr dur \<Rightarrow>
                 (case py_str (Some max_d) of
                    Inl e \<Rightarrow> Some e
                  | Inr max_text \<Rightarrow>
                      (case parse_duration_to_seconds max_text of
                         Inl e \<Rightarrow> Some e
                       | Inr bound \<Rightarrow>
                           if of_int bound < dur
                           then Some (Raise AssertionError
                                       (''Expected duration <= '' @ max_text @ '', got '' @
                                        format_1f env dur @ ''s''))
                           else None)))
          else None
      | _ \<Rightarrow> None)"

text \<open>
  The index \<^verbatim>\<open>by_display\<close>: for every node with a display name,
  \<^verbatim>\<open>by_display.setdefault(dn, []).append(node)\<close>.
\<close>

definition setdefault_append ::
  "(string \<times> node list) list \<Rightarrow> string \<Rightarrow> node \<Rightarrow> (string \<times> node list) list" where
  "setdefault_append d k v =
     (case map_of d k of
        None \<Rightarrow> d @ [(k, [v])]
      | Some vs \<Rightarrow> map (\<lambda>(k', vs'). if k' = k then (k', vs' @ [v]) else (k', vs')) d)"

definition by_display_of :: "node_map \<Rightarrow> (string \<times> node list) list" where
  "by_display_of nodes =
     foldl (\<lambda>d (node_id, n).
              case n_displayName n of
                None \<Rightarrow> d
              | Some dn \<Rightarrow> if dn = [] then d else setdefault_append d dn n)
           [] nodes"

text \<open>The display name an entry selects:
  \<^verbatim>\<open>selector.get("displayName") or n.get("displayName")\<close>, with
  \<^verbatim>\<open>selector = n.get("selector") or {}\<close>.\<close>

definition selected_display_name :: "node_expect \<Rightarrow> string option" where
  "selected_display_name n =
     (let from_selector = (case e_selector n of None \<Rightarrow> None | Some sel \<Rightarrow> sel_displayName sel)
      in if truthy from_selector then from_selector else e_displayName n)"

text \<open>\<^verbatim>\<open>logs_spec.get("contains") or []\<close>, with \<^verbatim>\<open>logs_spec = n.get("logs") or {}\<close>.\<close>

definition contains_of :: "node_expect \<Rightarrow> string list" where
  "contains_of n =
     (case e_logs n of
        None \<Rightarrow> []
      | Some ls \<Rightarrow> (case l_contains ls of None \<Rightarrow> [] | Some xs \<Rightarrow> xs))"

text \<open>The first of the matched nodes that has a pod name.\<close>

fun first_pod_name :: "node list \<Rightarrow> string option" where
  "first_pod_name [] = None"
| "first_pod_name (n # ns) = (if truthy (n_podName n) then n_podName n else first_pod_name ns)"

text \<open>The first needle that the logs do not contain.\<close>

fun first_missing :: "string \<Rightarrow> string list \<Rightarrow> string option" where
  "first_missing logs [] = None"
| "first_missing logs (needle # rest) =
     (if \<not> contains logs needle then Some needle else first_missing logs rest)"

definition missing_display_name_message :: string where
  "missing_display_name_message =
     ''Node expect entry missing displayName (use nodes[].selector.displayName)''"

definition node_not_found_message :: "string \<Rightarrow> string list \<Rightarrow> string" where
  "node_not_found_message dn available =
     ''Node '' @ [CHR 0x27] @ dn @ [CHR 0x27] @ '' not found in workflow status.nodes. '' @
     ''Available displayNames (sample): '' @ repr_list (take 30 available)"

definition phase_message :: "string \<Rightarrow> string \<Rightarrow> string option list \<Rightarrow> string" where
  "phase_message dn exp_node_phase phases =
     ''Node '' @ [CHR 0x27] @ dn @ [CHR 0x27] @ '': expected phase='' @ exp_node_phase @
     '', got phases='' @ repr_opt_list phases"

definition logs_message :: "string \<Rightarrow> string \<Rightarrow> string \<Rightarrow> string" where
  "logs_message dn needle logs =
     ''Node '' @ [CHR 0x27] @ dn @ [CHR 0x27] @ '': expected logs to contain '' @
     [CHR 0x27] @ needle @ [CHR 0x27] @ '', but not found.'' @ [CHR 0x0A] @
     ''--- logs ---'' @ [CHR 0x0A] @ logs"

text \<open>The phase check of one entry, on the nodes that share its display name.\<close>

definition check_node_phase :: "string \<Rightarrow> node_expect \<Rightarrow> node list \<Rightarrow> error option" where
  "check_node_phase dn n matched =
     (case e_phase n of
        None \<Rightarrow> None
      | Some exp_node_phase \<Rightarrow>
          if exp_node_phase = [] then None
          else
            (let phases = map n_phase matched in
             if Some exp_node_phase \<notin> set phases
             then Some (Raise AssertionError (phase_message dn exp_node_phase phases))
             else None))"

text \<open>The logs check of one entry.\<close>

definition check_node_logs ::
  "'w env \<Rightarrow> workflow \<Rightarrow> string \<Rightarrow> node_map \<Rightarrow> string \<Rightarrow> node_expect \<Rightarrow> node list \<Rightarrow>
   'w state \<Rightarrow> error option \<times> 'w state" where
  "check_node_logs env obj wf_ns nodes dn n matched st =
     (let needles = contains_of n in
      if needles = [] then (None, st)
      else
        (case (if truthy (first_pod_name matched) then Inr (str_opt (first_pod_name matched))
               else
                 (case metadata_field obj md_name ''name'' of
                    Inl e \<Rightarrow> Inl e
                  | Inr wf_name \<Rightarrow> resolve_pod_name (recursion_depth env) nodes wf_name dn)) of
           Inl e \<Rightarrow> (Some e, st)
         | Inr pod_name \<Rightarrow>
             (case read_pod_logs env wf_ns pod_name st of
                (Inl e, st') \<Rightarrow> (Some e, st')
              | (Inr logs, st') \<Rightarrow>
                  (case first_missing logs needles of
                     None \<Rightarrow> (None, st')
                   | Some needle \<Rightarrow>
                       (Some (Raise AssertionError (logs_message dn needle logs)), st')))))"

text \<open>One pass of the loop \<^verbatim>\<open>for n in nodes_expect\<close>.\<close>

definition check_node_expect ::
  "'w env \<Rightarrow> workflow \<Rightarrow> string \<Rightarrow> node_map \<Rightarrow> (string \<times> node list) list \<Rightarrow> node_expect \<Rightarrow>
   'w state \<Rightarrow> error option \<times> 'w state" where
  "check_node_expect env obj wf_ns nodes by_display n st =
     (case selected_display_name n of
        None \<Rightarrow> (Some (Raise AssertionError missing_display_name_message), st)
      | Some dn \<Rightarrow>
          if dn = [] then (Some (Raise AssertionError missing_display_name_message), st)
          else
            (case map_of by_display dn of
               None \<Rightarrow>
                 (Some (Raise AssertionError
                          (node_not_found_message dn (sort (map fst by_display)))), st)
             | Some matched \<Rightarrow>
                 (case check_node_phase dn n matched of
                    Some e \<Rightarrow> (Some e, st)
                  | None \<Rightarrow> check_node_logs env obj wf_ns nodes dn n matched st)))"

fun check_nodes ::
  "'w env \<Rightarrow> workflow \<Rightarrow> string \<Rightarrow> node_map \<Rightarrow> (string \<times> node list) list \<Rightarrow>
   node_expect list \<Rightarrow> 'w state \<Rightarrow> error option \<times> 'w state" where
  "check_nodes env obj wf_ns nodes by_display [] st = (None, st)"
| "check_nodes env obj wf_ns nodes by_display (n # rest) st =
     (case check_node_expect env obj wf_ns nodes by_display n st of
        (Some e, st') \<Rightarrow> (Some e, st')
      | (None, st') \<Rightarrow> check_nodes env obj wf_ns nodes by_display rest st')"

text \<open>\<^verbatim>\<open>assert_expectations\<close>: \<^term>\<open>None\<close> when every expectation is met, the
  exception of the first unmet one otherwise.\<close>

definition assert_expectations ::
  "'w env \<Rightarrow> workflow \<Rightarrow> expect \<Rightarrow> 'w state \<Rightarrow> error option \<times> 'w state" where
  "assert_expectations env obj ex st =
     (let status = status_of obj in
      case check_workflow_phase status ex of
        Some e \<Rightarrow> (Some e, st)
      | None \<Rightarrow>
          (case check_max_duration env status ex of
             Some e \<Rightarrow> (Some e, st)
           | None \<Rightarrow>
               (let nodes_expect = (case x_nodes ex of None \<Rightarrow> [] | Some xs \<Rightarrow> xs) in
                if nodes_expect = [] then (None, st)
                else
                  (case metadata_field obj md_namespace ''namespace'' of
                     Inl e \<Rightarrow> (Some e, st)
                   | Inr wf_ns \<Rightarrow>
                       (let nodes = (case s_nodes status of None \<Rightarrow> [] | Some m \<Rightarrow> m)
                        in check_nodes env obj wf_ns nodes (by_display_of nodes)
                             nodes_expect st)))))"

text \<open>The status nodes that have the display name \<open>dn\<close>, in the order of the node map.\<close>

definition named :: "string \<Rightarrow> node_map \<Rightarrow> node list" where
  "named dn nodes = filter (\<lambda>m. n_displayName m = Some dn) (map snd nodes)"

section \<open>Scenarios\<close>

text \<open>
  The scenario class. A field that the document gives as null is \<^verbatim>\<open>None\<close> in the
  scenario, whatever the class declares.
\<close>

record test_scenario =
  ts_path :: string
  ts_name :: "string option"
  ts_description :: "string option"
  ts_tags :: "string list option"
  ts_timeout_seconds :: int
  ts_namespace :: "string option"
  ts_expect :: "expect option"
  ts_workflow_inline :: "manifest option"
  ts_workflow_file :: "string option"

definition empty_expect :: expect where
  "empty_expect = \<lparr>x_workflowPhase = None, x_maxDuration = None, x_nodes = None\<rparr>"

definition exactly_one_message :: "string \<Rightarrow> string" where
  "exactly_one_message p = p @ '': define exactly one of workflow OR workflowFile''"

text \<open>
  The body of the loop of \<^verbatim>\<open>load_scenarios_from_dir\<close>, after the document at
  \<open>p\<close> has been read: the source check, then the fields of the scenario in the order
  in which Python evaluates them (\<^verbatim>\<open>data["name"]\<close> before the timeout).
\<close>

definition make_scenario :: "'w env \<Rightarrow> string \<Rightarrow> scenario_doc \<Rightarrow> error + test_scenario" where
  "make_scenario env p data =
     (let wf_inline = d_workflow data;
          wf_file_raw = d_workflowFile data;
          wf_file = (if truthy wf_file_raw then Some (path_sibling env p (str_opt wf_file_raw))
                     else None)
      in if (wf_inline = None) = (wf_file = None)
         then Inl (Raise ValueError (exactly_one_message p))
         else
           (case subscript ''name'' (d_name data) of
              Inl e \<Rightarrow> Inl e
            | Inr nm \<Rightarrow>
                (case py_str (get_default (d_timeout data) (YStr ''10m'')) of
                   Inl e \<Rightarrow> Inl e
                 | Inr timeout_text \<Rightarrow>
                     (case parse_duration_to_seconds timeout_text of
                        Inl e \<Rightarrow> Inl e
                      | Inr secs \<Rightarrow>
                          Inr \<lparr>ts_path = p,
                               ts_name = nm,
                               ts_description = get_default (d_description data) [],
                               ts_tags = get_default (d_tags data) [],
                               ts_timeout_seconds = secs,
                               ts_namespace = get_default (d_namespace data) ''argo'',
                               ts_expect = get_default (d_expect data) empty_expect,
                               ts_workflow_inline = wf_inline,
                               ts_workflow_file = wf_file\<rparr>))))"


fun load_paths ::
  "'w env \<Rightarrow> string list \<Rightarrow> test_scenario list \<Rightarrow> 'w state \<Rightarrow>
   (error + test_scenario list) \<times> 'w state" where
  "load_paths env [] scenarios st = (Inr scenarios, st)"
| "load_paths env (p # ps) scenarios st =
     (case call (load_yaml_scenario env p) st of
        (Inl e, st') \<Rightarrow> (Inl e, st')
      | (Inr (Not_mapping type_name), st') \<Rightarrow> (Inl (no_attribute type_name ''get''), st')
      | (Inr (Mapping data), st') \<Rightarrow>
          (case make_scenario env p data of
             Inl e \<Rightarrow> (Inl e, st')
           | Inr s \<Rightarrow> load_paths env ps (scenarios @ [s]) st'))"

definition load_scenarios_from_dir ::
  "'w env \<Rightarrow> string \<Rightarrow> 'w state \<Rightarrow> (error + test_scenario list) \<times> 'w state" where
  "load_scenarios_from_dir env tests_dir st =
     (case call (glob_yaml env (resolve_dir env tests_dir)) st of
        (paths, st') \<Rightarrow>
          if paths = []
          then (Inl (Raise FileNotFoundError
                       (''No *.yaml scenarios found in: '' @ resolve_dir env tests_dir)), st')
          else load_paths env paths [] st')"

definition load_workflow_manifest ::
  "'w env \<Rightarrow> test_scenario \<Rightarrow> 'w state \<Rightarrow> (error + manifest) \<times> 'w state" where
  "load_workflow_manifest env s st =
     (case ts_workflow_inline s of
        Some m \<Rightarrow> (Inr m, st)
      | None \<Rightarrow>
          (case ts_workflow_file s of
             None \<Rightarrow> (Inl (Raise AssertionError []), st)
           | Some f \<Rightarrow> call (load_yaml_manifest env f) st))"

section \<open>The runner\<close>

text \<open>\<^verbatim>\<open>str(s.tags)\<close>, as the f-string of \<^verbatim>\<open>run_one_scenario\<close> prints it.\<close>

fun str_tags :: "string list option \<Rightarrow> string" where
  "str_tags None = ''None''"
| "str_tags (Some tags) = repr_list tags"

text \<open>
  \<^verbatim>\<open>run_one_scenario\<close>: \<^term>\<open>None\<close> is a run that does not return (the wait never
  ends); otherwise the result is the exception that left the function, or the pair
  \<^verbatim>\<open>(True, wf_name)\<close>.
\<close>

definition run_one_scenario ::
  "'w env \<Rightarrow> test_scenario \<Rightarrow> 'w state \<Rightarrow> ((error + bool \<times> string) \<times> 'w state) option" where
  "run_one_scenario env s st0 =
     (let st1 = print ([CHR 0x0A] @ ''=== RUN: '' @ str_opt (ts_name s)) st0;
          st2 = print (''  file: '' @ path_name env (ts_path s)) st1
      in case format_int (ts_timeout_seconds s) of
           Inl e \<Rightarrow> Some (Inl e, st2)
         | Inr seconds \<Rightarrow>
             (let st3 = print (''  tags='' @ str_tags (ts_tags s) @ '' ns='' @
                               str_opt (ts_namespace s) @ '' timeout='' @ seconds @ ''s'') st2
              in case load_workflow_manifest env s st3 of
                   (Inl e, st4) \<Rightarrow> Some (Inl e, st4)
                 | (Inr body, st4) \<Rightarrow>
                     (case submit_workflow env (ts_namespace s) body st4 of
                        (Inl e, st5) \<Rightarrow> Some (Inl e, st5)
                      | (Inr created, st5) \<Rightarrow>
                          (case metadata_field created md_name ''name'' of
                             Inl e \<Rightarrow> Some (Inl e, st5)
                           | Inr wf_name \<Rightarrow>
                               (let st6 = print (''  submitted: '' @ str_opt (ts_namespace s) @
                                                 ''/'' @ wf_name) st5
                                in case wait_workflow env (ts_namespace s) wf_name
                                          (ts_timeout_seconds s) st6 of
                                     None \<Rightarrow> None
                                   | Some (Inl e, st7) \<Rightarrow> Some (Inl e, st7)
                                   | Some (Inr final_wf, st7) \<Rightarrow>
                                       (let st8 = print (''  finished: phase='' @
                                                         phase_or_unknown final_wf) st7
                                        in case ts_expect s of
                                             None \<Rightarrow>
                                               Some (Inl (no_attribute ''NoneType'' ''get''), st8)
                                           | Some ex \<Rightarrow>
                                               (case assert_expectations env final_wf ex st8 of
                                                  (Some e, st9) \<Rightarrow> Some (Inl e, st9)
                                                | (None, st9) \<Rightarrow>
                                                    Some (Inr (True, wf_name), st9))))))))"

text \<open>The marks that \<^verbatim>\<open>main\<close> prints, as UTF-8 bytes.\<close>

definition check_mark :: string where
  "check_mark = [CHR 0xE2, CHR 0x9C, CHR 0x85]"

definition cross_mark :: string where
  "cross_mark = [CHR 0xE2, CHR 0x9D, CHR 0x8C]"

definition passed_line :: "'w env \<Rightarrow> test_scenario \<Rightarrow> string \<Rightarrow> string" where
  "passed_line env s wf_name =
     check_mark @ '' PASSED: '' @ path_name env (ts_path s) @ '' (wf='' @ wf_name @ '')''"

definition failed_line :: "'w env \<Rightarrow> test_scenario \<Rightarrow> error \<Rightarrow> string" where
  "failed_line env s e =
     cross_mark @ '' FAILED: '' @ path_name env (ts_path s) @ '': '' @ py_str_exc e"

text \<open>
  The loop \<^verbatim>\<open>for s in scenarios\<close> of \<^verbatim>\<open>main\<close>, with the counters \<open>passed\<close> and
  \<open>failed\<close>: the \<^verbatim>\<open>try\<close> catches every \<^verbatim>\<open>Exception\<close>.
\<close>

fun run_all ::
  "'w env \<Rightarrow> test_scenario list \<Rightarrow> nat \<Rightarrow> nat \<Rightarrow> 'w state \<Rightarrow> ((nat \<times> nat) \<times> 'w state) option" where
  "run_all env [] passed failed st = Some ((passed, failed), st)"
| "run_all env (s # rest) passed failed st =
     (case run_one_scenario env s st of
        None \<Rightarrow> None
      | Some (Inr (ok, wf_name), st') \<Rightarrow>
          run_all env rest (passed + 1) failed (print (passed_line env s wf_name) st')
      | Some (Inl e, st') \<Rightarrow>
          run_all env rest passed (failed + 1) (print (failed_line env s e) st'))"

text \<open>The command line of \<^verbatim>\<open>main\<close>, as \<^verbatim>\<open>argparse\<close> gives it.\<close>

record args =
  arg_dir :: string
  arg_tag :: "string list"
  arg_name :: "string option"

fun filter_by_name :: "string \<Rightarrow> test_scenario list \<Rightarrow> error + test_scenario list" where
  "filter_by_name wanted [] = Inr []"
| "filter_by_name wanted (s # rest) =
     (case ts_name s of
        None \<Rightarrow> Inl (no_attribute ''NoneType'' ''lower'')
      | Some nm \<Rightarrow>
          (case filter_by_name wanted rest of
             Inl e \<Rightarrow> Inl e
           | Inr kept \<Rightarrow> Inr (if contains (lower nm) (lower wanted) then s # kept else kept)))"

fun filter_by_tags :: "string list \<Rightarrow> test_scenario list \<Rightarrow> error + test_scenario list" where
  "filter_by_tags wanted [] = Inr []"
| "filter_by_tags wanted (s # rest) =
     (case ts_tags s of
        None \<Rightarrow> Inl (Raise TypeError ([CHR 0x27] @ ''NoneType'' @ [CHR 0x27] @
                                     '' object is not iterable''))
      | Some tags \<Rightarrow>
          (case filter_by_tags wanted rest of
             Inl e \<Rightarrow> Inl e
           | Inr kept \<Rightarrow>
               Inr (if set (map lower wanted) \<subseteq> set (map lower tags) then s # kept
                    else kept)))"

definition select_scenarios :: "args \<Rightarrow> test_scenario list \<Rightarrow> error + test_scenario list" where
  "select_scenarios a scenarios =
     (case (if truthy (arg_name a) then filter_by_name (str_opt (arg_name a)) scenarios
            else Inr scenarios) of
        Inl e \<Rightarrow> Inl e
      | Inr by_name \<Rightarrow> if arg_tag a \<noteq> [] then filter_by_tags (arg_tag a) by_name else Inr by_name)"

text \<open>How the process ends: \<^verbatim>\<open>main\<close> returns, \<^verbatim>\<open>SystemExit\<close> with a number or
  with a text, or an exception that nothing caught.\<close>

datatype ending = Returned | SystemExit_code nat | SystemExit_text string | Uncaught error

fun exit_code :: "ending \<Rightarrow> nat" where
  "exit_code Returned = 0"
| "exit_code (SystemExit_code c) = c"
| "exit_code (SystemExit_text t) = 1"
| "exit_code (Uncaught e) = 1"

definition kube_auth :: "'w env \<Rightarrow> 'w state \<Rightarrow> (error + unit) \<times> 'w state" where
  "kube_auth env st =
     (case call (load_kube_config env) st of
        (Inr u, st') \<Rightarrow> (Inr u, st')
      | (Inl e, st') \<Rightarrow> call (load_incluster_config env) st')"

definition main :: "'w env \<Rightarrow> args \<Rightarrow> 'w state \<Rightarrow> (ending \<times> 'w state) option" where
  "main env a st =
     (case load_scenarios_from_dir env (arg_dir a) st of
        (Inl e, st1) \<Rightarrow> Some (Uncaught e, st1)
      | (Inr loaded, st1) \<Rightarrow>
          (case select_scenarios a loaded of
             Inl e \<Rightarrow> Some (Uncaught e, st1)
           | Inr scenarios \<Rightarrow>
           if scenarios = [] then Some (SystemExit_text ''No scenarios matched filters'', st1)
           else
             (case kube_auth env st1 of
                (Inl e, st2) \<Rightarrow> Some (Uncaught e, st2)
              | (Inr u, st2) \<Rightarrow>
                  (case run_all env scenarios 0 0 st2 of
                     None \<Rightarrow> None
                   | Some ((passed, failed), st3) \<Rightarrow>
                       (let st4 = print ([CHR 0x0A] @ ''=== SUMMARY ==='') st3;
                            st5 = print (''passed: '' @ str_nat passed) st4;
                            st6 = print (''failed: '' @ str_nat failed) st5
                        in if failed \<noteq> 0 then Some (SystemExit_code 1, st6)
                           else Some (Returned, st6))))))"

section \<open>Example data\<close>

text \<open>
  A step node \<^verbatim>\<open>wf-1\<close> whose child \<^verbatim>\<open>other-2\<close> is a pod node with a template name,
  but with an identifier that does not start with \<^verbatim>\<open>wf-\<close>: nothing is reconstructed,
  the search goes into the child and comes back with nothing, and the error lists the
  one candidate. \<open>stray_rank\<close> is the height of a node in it.
\<close>

definition stray_nodes :: node_map where
  "stray_nodes =
     [(''wf-1'', \<lparr>n_displayName = Some ''step'', n_type = Some ''Steps'', n_phase = Some ''Failed'',
                    n_podName = None, n_templateName = None, n_children = Some [''other-2'']\<rparr>),
      (''other-2'', \<lparr>n_displayName = Some ''inner'', n_type = Some ''Pod'', n_phase = None,
                       n_podName = None, n_templateName = Some ''run'', n_children = None\<rparr>)]"


definition stray_rank :: "string \<Rightarrow> nat" where
  "stray_rank node_id = (if node_id = ''wf-1'' then 1 else 0)"

text \<open>A node map with a cycle: the step node \<^verbatim>\<open>a\<close> is its own child, and nothing on
  the cycle has a pod name.\<close>

definition cyclic_nodes :: node_map where
  "cyclic_nodes =
     [(''a'', \<lparr>n_displayName = Some ''loop'', n_type = Some ''Steps'', n_phase = None,
                 n_podName = None, n_templateName = None, n_children = Some [''a'']\<rparr>)]"

text \<open>
  A node map without a cycle, in which two step nodes share a child: \<^verbatim>\<open>wf-a\<close> has the
  children \<^verbatim>\<open>wf-b\<close> and \<^verbatim>\<open>wf-c\<close>, and both have the pod node \<^verbatim>\<open>wf-d\<close> as
  their child. \<open>diamond_rank\<close> is the height of a node in it.
\<close>

definition diamond_nodes :: node_map where
  "diamond_nodes =
     [(''wf-a'', \<lparr>n_displayName = Some ''top'', n_type = Some ''DAG'', n_phase = None,
                    n_podName = None, n_templateName = None,
                    n_children = Some [''wf-b'', ''wf-c'']\<rparr>),
      (''wf-b'', \<lparr>n_displayName = Some ''left'', n_type = Some ''Steps'', n_phase = None,
                    n_podName = None, n_templateName = None, n_children = Some [''wf-d'']\<rparr>),
      (''wf-c'', \<lparr>n_displayName = Some ''right'', n_type = Some ''Steps'', n_phase = None,
                    n_podName = None, n_templateName = None, n_children = Some [''wf-d'']\<rparr>),
      (''wf-d'', \<lparr>n_displayName = Some ''leaf'', n_type = Some ''Pod'', n_phase = None,
                    n_podName = None, n_templateName = Some ''run'', n_children = None\<rparr>)]"

definition diamond_rank :: "string \<Rightarrow> nat" where
  "diamond_rank node_id =
     (if node_id = ''wf-a'' then 2 else if node_id = ''wf-b'' \<or> node_id = ''wf-c'' then 1 else 0)"

text \<open>
  An outside world for the examples. Its state is the clock, in seconds. The scenario
  files are \<open>files\<close>; a submitted manifest becomes a workflow named by its text; the
  workflow \<open>name\<close> at time \<open>t\<close> is \<open>snapshot name t\<close>; every pod is \<open>p\<close>, and the log of
  container \<open>c\<close> is \<open>logs c\<close>.
\<close>

definition example_env ::
  "(string \<times> scenario_doc) list \<Rightarrow> (string \<Rightarrow> nat \<Rightarrow> workflow) \<Rightarrow> pod \<Rightarrow>
   (string \<Rightarrow> error + string) \<Rightarrow> nat env" where
  "example_env files snapshot p logs =
     \<lparr>create_namespaced_custom_object =
        (\<lambda>grp ver ns plural body w.
           (Inr \<lparr>wf_metadata = Some \<lparr>md_name = Some body, md_namespace = ns\<rparr>,
                  wf_status = None\<rparr>, w)),
      get_namespaced_custom_object = (\<lambda>grp ver ns plural name w. (Inr (snapshot name w), w)),
      read_namespaced_pod = (\<lambda>name ns w. (Inr p, w)),
      read_namespaced_pod_log = (\<lambda>name ns c w. (logs c, w)),
      time_time = (\<lambda>w. (of_nat w, w)),
      float_plus = (\<lambda>x i. Inr (x + of_int i)),
      time_sleep = (\<lambda>n w. w + n),
      elapsed_seconds = (\<lambda>started finished. Inr 0),
      format_1f = (\<lambda>q. ''0.0''),
      recursion_depth = 1000,
      resolve_dir = (\<lambda>d. d),
      path_sibling = (\<lambda>q f. f),
      path_name = (\<lambda>q. q),
      glob_yaml = (\<lambda>d w. (map fst files, w)),
      load_yaml_scenario =
        (\<lambda>q w. (case map_of files q of
                    None \<Rightarrow> Inl (Raise FileNotFoundError q)
                  | Some doc \<Rightarrow> Inr (Mapping doc), w)),
      load_yaml_manifest = (\<lambda>q w. (Inl (Raise FileNotFoundError q), w)),
      load_kube_config = (\<lambda>w. (Inr (), w)),
      load_incluster_config = (\<lambda>w. (Inr (), w))\<rparr>"

definition start_state :: "nat state" where
  "start_state = \<lparr>world = 0, stdout = []\<rparr>"

text \<open>A workflow of the namespace \<open>ns\<close> in a given phase, without nodes.\<close>

definition workflow_in :: "string \<Rightarrow> string \<Rightarrow> string \<Rightarrow> workflow" where
  "workflow_in ns name ph =
     \<lparr>wf_metadata = Some \<lparr>md_name = Some name, md_namespace = Some ns\<rparr>,
      wf_status = Some \<lparr>s_phase = Some ph, s_startedAt = None, s_finishedAt = None,
                         s_nodes = None\<rparr>\<rparr>"

text \<open>
  Two pods: one with the regular containers \<^verbatim>\<open>wait\<close>, \<^verbatim>\<open>main\<close>, \<^verbatim>\<open>sidecar\<close> and no
  init containers, and one whose init containers are \<^verbatim>\<open>setup\<close> and \<^verbatim>\<open>main\<close>. The log
  of a container says that it ran, but the log of \<^verbatim>\<open>wait\<close> cannot be read.
\<close>

definition sidecar_pod :: pod where
  "sidecar_pod = \<lparr>containers = Some [''wait'', ''main'', ''sidecar''], init_containers = None\<rparr>"

definition init_main_pod :: pod where
  "init_main_pod = \<lparr>containers = Some [''app''], init_containers = Some [''setup'', ''main'']\<rparr>"

definition ran_logs :: "string \<Rightarrow> error + string" where
  "ran_logs c =
     (if c = ''wait'' then Inl (Raise (OtherException ''ApiException'') ''gone'')
      else Inr (c @ '' ran''))"

definition logs_env :: "pod \<Rightarrow> nat env" where
  "logs_env p = example_env [] (\<lambda>name t. workflow_in ''argo'' name ''Running'') p ran_logs"

text \<open>
  A retried step: two nodes with the display name \<^verbatim>\<open>retry-step\<close>, the first
  \<^verbatim>\<open>Failed\<close> and the second \<^verbatim>\<open>Succeeded\<close>, and an expectation of the phase
  \<^verbatim>\<open>Succeeded\<close> for that display name.
\<close>

definition retry_nodes :: node_map where
  "retry_nodes =
     [(''wf-1'', \<lparr>n_displayName = Some ''retry-step'', n_type = Some ''Pod'',
                    n_phase = Some ''Failed'', n_podName = None, n_templateName = Some ''run'',
                    n_children = None\<rparr>),
      (''wf-2'', \<lparr>n_displayName = Some ''retry-step'', n_type = Some ''Pod'',
                    n_phase = Some ''Succeeded'', n_podName = None, n_templateName = Some ''run'',
                    n_children = None\<rparr>)]"

definition retry_workflow :: workflow where
  "retry_workflow =
     \<lparr>wf_metadata = Some \<lparr>md_name = Some ''wf'', md_namespace = Some ''argo''\<rparr>,
      wf_status = Some \<lparr>s_phase = Some ''Succeeded'', s_startedAt = None, s_finishedAt = None,
                         s_nodes = Some retry_nodes\<rparr>\<rparr>"

definition retry_entry :: node_expect where
  "retry_entry =
     \<lparr>e_selector = Some \<lparr>sel_displayName = Some ''retry-step''\<rparr>, e_displayName = None,
      e_phase = Some ''Succeeded'', e_logs = None\<rparr>"

definition retry_expect :: expect where
  "retry_expect =
     \<lparr>x_workflowPhase = Some ''Succeeded'', x_maxDuration = None, x_nodes = Some [retry_entry]\<rparr>"

text \<open>
  Two more entries: one that names the step by a top-level \<^verbatim>\<open>displayName\<close> and has no
  selector, and one that has a selector without \<^verbatim>\<open>displayName\<close> and no top-level
  \<^verbatim>\<open>displayName\<close> either.
\<close>

definition top_level_entry :: node_expect where
  "top_level_entry =
     \<lparr>e_selector = None, e_displayName = Some ''retry-step'', e_phase = Some ''Succeeded'',
      e_logs = None\<rparr>"

definition nameless_entry :: node_expect where
  "nameless_entry =
     \<lparr>e_selector = Some \<lparr>sel_displayName = None\<rparr>, e_displayName = None,
      e_phase = Some ''Succeeded'', e_logs = None\<rparr>"

definition nameless_expect :: expect where
  "nameless_expect =
     \<lparr>x_workflowPhase = None, x_maxDuration = None, x_nodes = Some [nameless_entry]\<rparr>"

text \<open>
  Scenario documents: one with an inline workflow and a name, one with an inline workflow
  and a workflow file, and one with an inline workflow but no name.
\<close>

definition good_doc :: scenario_doc where
  "good_doc =
     \<lparr>d_name = Given ''hello'', d_description = Missing, d_tags = Given [''smoke''],
      d_timeout = Given (YStr ''5s''), d_namespace = Missing, d_expect = Missing,
      d_workflow = Some ''ok'', d_workflowFile = None\<rparr>"



section \<open>Properties\<close>

subsection \<open>Decimal text and \<^verbatim>\<open>int()\<close>\<close>



lemma digit_value_lower: "digit_value c = Some d \<Longrightarrow> lower_char c = c"
  by (auto simp: digit_value_def lower_char_def split: if_splits)

lemma is_space_lower: "is_space (lower_char c) = is_space c"
  by (auto simp: is_space_def lower_char_def split: if_splits option.splits)









text \<open>Dropping characters at both ends.\<close>

lemma dropWhile_last:
  "xs \<noteq> [] \<Longrightarrow> \<not> P (last xs) \<Longrightarrow> dropWhile P xs \<noteq> [] \<and> last (dropWhile P xs) = last xs"
  by (induction xs) (auto split: if_splits)

lemma trim_last:
  assumes "xs \<noteq> []" "\<not> P (last xs)"
  shows "rev (dropWhile P (rev (dropWhile P xs))) = dropWhile P xs"
proof -
  let ?ys = "dropWhile P xs"
  from assms have ys: "?ys \<noteq> []" "last ?ys = last xs"
    using dropWhile_last [of xs P] by auto
  then have "hd (rev ?ys) = last xs" by (simp add: hd_rev)
  with assms ys have "dropWhile P (rev ?ys) = rev ?ys"
    by (cases "rev ?ys") auto
  then show ?thesis by simp
qed

lemma trim_id:
  assumes "xs \<noteq> []" "\<not> P (hd xs)" "\<not> P (last xs)"
  shows "rev (dropWhile P (rev (dropWhile P xs))) = xs"
proof -
  from assms(1,2) have b: "dropWhile P xs = xs" by (cases xs) auto
  from assms(1,3) have a: "rev (dropWhile P (rev (dropWhile P xs))) = dropWhile P xs"
    by (rule trim_last)
  show ?thesis by (rule trans [OF a b])
qed


lemma strip_id:
  "xs \<noteq> [] \<Longrightarrow> \<not> is_space (hd xs) \<Longrightarrow> \<not> is_space (last xs) \<Longrightarrow> strip xs = xs"
  unfolding strip_def by (rule trim_id)









subsection \<open>Integer true division, truncated\<close>








subsection \<open>Duration parsing\<close>






lemma drop_last_1: "drop_last 1 (b @ [c]) = b"
  by (simp add: drop_last_def)















lemmas string_eval =
  lower_def strip_def is_space_def lower_char_def endswith_def drop_last_def startswith_def

lemmas int_eval =
  py_int_def int_literal_def int_strip_def is_c_space_def unsigned_def digit_count_def
  max_str_digits_def literal_value_def digit_value_def Let_def



text \<open>
  The whitespace of \<^verbatim>\<open>int()\<close> is narrower than that of \<^verbatim>\<open>strip\<close>: the unit
  separator before the suffix is kept by \<^verbatim>\<open>strip\<close> and refused by \<^verbatim>\<open>int()\<close>.
\<close>

lemma parse_duration_unit_separator:
  "\<exists>m. parse_duration_to_seconds (''5'' @ [CHR 0x1F] @ ''s'') = Inl (Raise ValueError m)"
  by (simp add: parse_duration_to_seconds_def string_eval int_eval)

subsection \<open>Pod name resolution\<close>

lemma startswith_append: "startswith (p @ s) p"
  by (simp add: startswith_def)

lemma derive_pod_name_Some:
  "derive_pod_name_from_pod_node node_id wf_name template_name = Some pod \<longleftrightarrow>
     (\<exists>t suffix. template_name = Some t \<and> t \<noteq> [] \<and> node_id = wf_name @ ''-'' @ suffix \<and>
        suffix \<noteq> [] \<and> pod = wf_name @ ''-'' @ t @ ''-'' @ suffix)"
proof -
  have split: "startswith node_id (wf_name @ ''-'') \<longleftrightarrow>
      node_id = wf_name @ ''-'' @ drop (length (wf_name @ ''-'')) node_id"
    by (metis append.assoc append_take_drop_id startswith_append startswith_def)
  show ?thesis
  proof
    assume "derive_pod_name_from_pod_node node_id wf_name template_name = Some pod"
    then show "\<exists>t suffix. template_name = Some t \<and> t \<noteq> [] \<and> node_id = wf_name @ ''-'' @ suffix \<and>
        suffix \<noteq> [] \<and> pod = wf_name @ ''-'' @ t @ ''-'' @ suffix"
      using split
      by (auto simp: derive_pod_name_from_pod_node_def Let_def split: option.splits if_splits)
  next
    assume "\<exists>t suffix. template_name = Some t \<and> t \<noteq> [] \<and> node_id = wf_name @ ''-'' @ suffix \<and>
        suffix \<noteq> [] \<and> pod = wf_name @ ''-'' @ t @ ''-'' @ suffix"
    then obtain t suffix where "template_name = Some t" "t \<noteq> []"
      "node_id = wf_name @ ''-'' @ suffix" "suffix \<noteq> []" "pod = wf_name @ ''-'' @ t @ ''-'' @ suffix"
      by blast
    then show "derive_pod_name_from_pod_node node_id wf_name template_name = Some pod"
      by (simp add: derive_pod_name_from_pod_node_def Let_def startswith_def)
  qed
qed

lemma derive_pod_name_None:
  "derive_pod_name_from_pod_node node_id wf_name template_name = None \<longleftrightarrow>
     (\<not> truthy template_name \<or> \<not> startswith node_id (wf_name @ ''-'') \<or>
      drop (length (wf_name @ ''-'')) node_id = [])"
  by (cases template_name) (auto simp: derive_pod_name_from_pod_node_def Let_def)

lemma derive_pod_name_truthy:
  "derive_pod_name_from_pod_node node_id wf_name template_name = Some pod \<Longrightarrow> pod \<noteq> []"
  by (auto simp: derive_pod_name_Some)

lemma pod_name_from_node_truthy:
  "pod_name_from_node nodes node_id wf_name = Some pod \<Longrightarrow> pod \<noteq> []"
  using derive_pod_name_truthy
  by (auto simp: pod_name_from_node_def Let_def split: if_splits)

lemma pod_name_from_node_truthy_iff:
  "truthy (pod_name_from_node nodes node_id wf_name) \<longleftrightarrow>
   pod_name_from_node nodes node_id wf_name \<noteq> None"
  using pod_name_from_node_truthy [of nodes node_id wf_name]
  by (cases "pod_name_from_node nodes node_id wf_name") auto

lemma first_found_truthy:
  "(\<And>x p. x \<in> set xs \<Longrightarrow> f x = Inr (Some p) \<Longrightarrow> p \<noteq> []) \<Longrightarrow>
   first_found f xs = Inr (Some p) \<Longrightarrow> p \<noteq> []"
  by (induction xs) (auto split: sum.splits if_splits)

lemma find_podname_truthy:
  "find_podname_in_subtree depth nodes node_id wf_name = Inr (Some pod) \<Longrightarrow> pod \<noteq> []"
proof (induction depth arbitrary: node_id pod)
  case 0
  then show ?case by simp
next
  case (Suc depth)
  show ?case
  proof (cases "truthy (pod_name_from_node nodes node_id wf_name)")
    case True
    with Suc.prems show ?thesis by (auto simp: Let_def)
  next
    case False
    with Suc.prems have "first_found (\<lambda>c. find_podname_in_subtree depth nodes c wf_name)
        (children_of (get_node nodes node_id)) = Inr (Some pod)"
      by (simp add: Let_def)
    then show ?thesis
      using Suc.IH by (rule first_found_truthy [rotated])
  qed
qed

lemma first_found_None_iff:
  "\<forall>x \<in> set xs. \<forall>p. f x = Inr (Some p) \<longrightarrow> p \<noteq> [] \<Longrightarrow>
   first_found f xs = Inr None \<longleftrightarrow> (\<forall>x \<in> set xs. f x = Inr None)"
proof (induction xs)
  case Nil
  then show ?case by simp
next
  case (Cons x xs)
  then have IH: "first_found f xs = Inr None \<longleftrightarrow> (\<forall>x \<in> set xs. f x = Inr None)" by simp
  show ?case
  proof (cases "f x")
    case (Inl e)
    then show ?thesis by simp
  next
    case (Inr r)
    show ?thesis
    proof (cases r)
      case None
      with Inr IH show ?thesis by simp
    next
      case (Some p)
      with Inr Cons.prems have "p \<noteq> []" by simp
      with Inr Some show ?thesis by simp
    qed
  qed
qed

lemma first_found_hd:
  "f x = Inr (Some p) \<Longrightarrow> p \<noteq> [] \<Longrightarrow> first_found f (x # xs) = Inr (Some p)"
  by simp

lemma find_podname_Inl:
  "find_podname_in_subtree depth nodes node_id wf_name = Inl e \<Longrightarrow> exc_class_of e = RecursionError"
proof (induction depth arbitrary: node_id)
  case 0
  then show ?case by auto
next
  case (Suc depth)
  have ff: "first_found f xs = Inl e \<Longrightarrow> \<exists>x \<in> set xs. f x = Inl e" for f :: "string \<Rightarrow> error + string option" and xs
    by (induction xs) (auto split: sum.splits if_splits)
  from Suc.prems obtain c where "find_podname_in_subtree depth nodes c wf_name = Inl e"
    using ff by (fastforce simp: Let_def split: if_splits)
  then show ?case by (rule Suc.IH)
qed

lemma messages_differ:
  "not_found_message display_name available \<noteq> unresolved_message nodes display_name start_ids"
  by (simp add: not_found_message_def unresolved_message_def)

lemma resolve_unresolved_iff:
  "resolve_pod_name depth nodes wf_name display_name =
     Inl (Raise AssertionError
            (unresolved_message nodes display_name (nodes_with_display_name nodes display_name)))
   \<longleftrightarrow>
     nodes_with_display_name nodes display_name \<noteq> [] \<and>
     (\<forall>node_id \<in> set (nodes_with_display_name nodes display_name).
        find_podname_in_subtree depth nodes node_id wf_name = Inr None)"
proof -
  let ?ids = "nodes_with_display_name nodes display_name"
  let ?f = "\<lambda>node_id. find_podname_in_subtree depth nodes node_id wf_name"
  have iff: "first_found ?f ?ids = Inr None \<longleftrightarrow> (\<forall>x \<in> set ?ids. ?f x = Inr None)"
    by (rule first_found_None_iff) (auto dest: find_podname_truthy)
  have inl: "first_found ?f ?ids = Inl e \<Longrightarrow> exc_class_of e = RecursionError" for e
  proof -
    assume a: "first_found ?f ?ids = Inl e"
    have "first_found f xs = Inl e \<Longrightarrow> \<exists>x \<in> set xs. f x = Inl e"
      for f :: "string \<Rightarrow> error + string option" and xs
      by (induction xs) (auto split: sum.splits if_splits)
    from this [OF a] show ?thesis using find_podname_Inl by blast
  qed
  show ?thesis
  proof (cases "?ids = []")
    case True
    then show ?thesis
      using messages_differ by (simp add: resolve_pod_name_def Let_def)
  next
    case False
    show ?thesis
    proof (cases "first_found ?f ?ids")
      case (Inl e)
      with inl [of e] iff False show ?thesis
        by (auto simp: resolve_pod_name_def Let_def)
    next
      case (Inr r)
      with iff False show ?thesis
        by (cases r) (auto simp: resolve_pod_name_def Let_def)
    qed
  qed
qed

lemma first_found_total:
  "\<forall>x \<in> set xs. \<exists>r. f x = Inr r \<Longrightarrow> \<exists>r. first_found f xs = Inr r"
  by (induction xs) (auto split: sum.splits)

lemma first_found_transfer:
  "first_found f xs = Inr r \<Longrightarrow> \<forall>x \<in> set xs. \<forall>r'. f x = Inr r' \<longrightarrow> g x = Inr r' \<Longrightarrow>
   first_found g xs = Inr r"
  by (induction xs) (auto split: sum.splits if_splits)

lemma children_in_nodes:
  "c \<in> set (children_of (get_node nodes node_id)) \<Longrightarrow>
   \<exists>n. (node_id, n) \<in> set nodes \<and> c \<in> set (children_of n)"
  by (auto simp: get_node_def children_of_def empty_node_def split: option.splits dest: map_of_SomeD)

lemma find_podname_returns:
  assumes "\<forall>(node_id, n) \<in> set nodes. \<forall>c \<in> set (children_of n). rank c < rank node_id"
  shows "rank node_id < depth \<Longrightarrow> \<exists>r. find_podname_in_subtree depth nodes node_id wf_name = Inr r"
proof (induction depth arbitrary: node_id)
  case 0
  then show ?case by simp
next
  case (Suc depth)
  have "\<exists>r. find_podname_in_subtree depth nodes c wf_name = Inr r"
    if "c \<in> set (children_of (get_node nodes node_id))" for c
  proof -
    from children_in_nodes [OF that] assms have "rank c < rank node_id" by blast
    with Suc.prems have "rank c < depth" by simp
    then show ?thesis by (rule Suc.IH)
  qed
  then have "\<exists>r. first_found (\<lambda>c. find_podname_in_subtree depth nodes c wf_name)
      (children_of (get_node nodes node_id)) = Inr r"
    by (intro first_found_total) blast
  then show ?case by (auto simp: Let_def)
qed

lemma find_podname_deeper:
  "find_podname_in_subtree depth nodes node_id wf_name = Inr r \<Longrightarrow>
   find_podname_in_subtree (Suc depth) nodes node_id wf_name = Inr r"
proof (induction depth arbitrary: node_id r)
  case 0
  then show ?case by simp
next
  case (Suc depth)
  show ?case
  proof (cases "truthy (pod_name_from_node nodes node_id wf_name)")
    case True
    with Suc.prems show ?thesis by (simp add: Let_def)
  next
    case False
    with Suc.prems have "first_found (\<lambda>c. find_podname_in_subtree depth nodes c wf_name)
        (children_of (get_node nodes node_id)) = Inr r"
      by (simp add: Let_def)
    then have "first_found (\<lambda>c. find_podname_in_subtree (Suc depth) nodes c wf_name)
        (children_of (get_node nodes node_id)) = Inr r"
      by (rule first_found_transfer) (use Suc.IH in blast)
    with False show ?thesis
      by (subst find_podname_in_subtree.simps) (simp add: Let_def)
  qed
qed

lemma find_podname_any_deeper:
  "find_podname_in_subtree depth nodes node_id wf_name = Inr r \<Longrightarrow> depth \<le> d \<Longrightarrow>
   find_podname_in_subtree d nodes node_id wf_name = Inr r"
proof (induction d)
  case 0
  then show ?case by simp
next
  case (Suc d)
  show ?case
  proof (cases "depth = Suc d")
    case True
    with Suc.prems show ?thesis by simp
  next
    case False
    with Suc have "find_podname_in_subtree d nodes node_id wf_name = Inr r" by simp
    then show ?thesis by (rule find_podname_deeper)
  qed
qed

lemma str_nat_small: "n < 10 \<Longrightarrow> str_nat n = [digit_char n]"
  by (subst str_nat.simps) simp

text \<open>
  C5. A node without a pod name, of type \<^verbatim>\<open>Pod\<close>, with a template name \<open>t\<close>, whose
  identifier is the workflow name, a hyphen and a non-empty suffix: its pod name is
  reconstructed as workflow name, template name and suffix, joined by hyphens. The
  subtree search at that node returns it at once, and so does \<^verbatim>\<open>resolve_pod_name\<close>
  when the node is the first one with the display name.
\<close>

theorem pod_name_reconstructed:
  assumes "\<not> truthy (n_podName (get_node nodes node_id))"
    and "n_type (get_node nodes node_id) = Some ''Pod''"
    and "n_templateName (get_node nodes node_id) = Some t" and "t \<noteq> []"
    and "node_id = wf_name @ ''-'' @ suffix" and "suffix \<noteq> []"
  shows "pod_name_from_node nodes node_id wf_name = Some (wf_name @ ''-'' @ t @ ''-'' @ suffix) \<and>
    find_podname_in_subtree (Suc depth) nodes node_id wf_name =
      Inr (Some (wf_name @ ''-'' @ t @ ''-'' @ suffix)) \<and>
    (\<forall>display_name rest. nodes_with_display_name nodes display_name = node_id # rest \<longrightarrow>
       resolve_pod_name (Suc depth) nodes wf_name display_name =
         Inr (wf_name @ ''-'' @ t @ ''-'' @ suffix))"
proof -
  let ?pod = "wf_name @ ''-'' @ t @ ''-'' @ suffix"
  have "derive_pod_name_from_pod_node node_id wf_name (Some t) = Some ?pod"
    using assms(4-6) by (auto simp: derive_pod_name_Some)
  with assms(1-3) have a: "pod_name_from_node nodes node_id wf_name = Some ?pod"
    by (simp add: pod_name_from_node_def Let_def)
  then have b: "find_podname_in_subtree (Suc depth) nodes node_id wf_name = Inr (Some ?pod)"
    by (simp add: Let_def)
  have "resolve_pod_name (Suc depth) nodes wf_name display_name = Inr ?pod"
    if "nodes_with_display_name nodes display_name = node_id # rest" for display_name rest
    using that b by (simp add: resolve_pod_name_def Let_def del: find_podname_in_subtree.simps)
  with a b show ?thesis by blast
qed


theorem pod_name_reconstructed_witness:
  "resolve_pod_name (Suc 0)
     [(''wf-abc'', \<lparr>n_displayName = Some ''step1'', n_type = Some ''Pod'', n_phase = None,
                      n_podName = None, n_templateName = Some ''run'', n_children = Some []\<rparr>)]
     ''wf'' ''step1'' = Inr ''wf-run-abc''"
proof -
  let ?nodes = "[(''wf-abc'', \<lparr>n_displayName = Some ''step1'', n_type = Some ''Pod'',
      n_phase = None, n_podName = None, n_templateName = Some ''run'', n_children = Some []\<rparr>)]"
  have h: "\<not> truthy (n_podName (get_node ?nodes ''wf-abc''))"
    "n_type (get_node ?nodes ''wf-abc'') = Some ''Pod''"
    "n_templateName (get_node ?nodes ''wf-abc'') = Some ''run''"
    "''run'' \<noteq> []" "''wf-abc'' = ''wf'' @ ''-'' @ ''abc''" "''abc'' \<noteq> []"
    by (simp_all add: get_node_def)
  have ids: "nodes_with_display_name ?nodes ''step1'' = ''wf-abc'' # []"
    by (simp add: nodes_with_display_name_def)
  have "resolve_pod_name (Suc 0) ?nodes ''wf'' ''step1'' =
      Inr (''wf'' @ ''-'' @ ''run'' @ ''-'' @ ''abc'')"
    using pod_name_reconstructed [OF h, of 0] ids by blast
  then show ?thesis by simp
qed

lemma first_some_append:
  "first_some g (ys @ zs) = (case first_some g ys of Some y \<Rightarrow> Some y | None \<Rightarrow> first_some g zs)"
  by (induction ys) (auto split: option.splits)

lemma first_found_first_some:
  assumes "\<forall>x \<in> set xs. \<forall>r. f x = Inr r \<longrightarrow> r = first_some g (h x)"
    and "\<forall>y p. g y = Some p \<longrightarrow> p \<noteq> []"
    and "first_found f xs = Inr r"
  shows "r = first_some g (concat (map h xs))"
  using assms(1,3)
proof (induction xs)
  case Nil
  then show ?case by simp
next
  case (Cons x xs)
  have truthy_iff: "truthy (first_some g ys) \<longleftrightarrow> first_some g ys \<noteq> None" for ys
  proof (induction ys)
    case Nil
    show ?case by simp
  next
    case (Cons y ys)
    with assms(2) show ?case by (cases "g y") auto
  qed
  from Cons.prems(2) obtain r' where fx: "f x = Inr r'"
    by (cases "f x") auto
  with Cons.prems(1) have r': "r' = first_some g (h x)" by simp
  show ?case
  proof (cases "first_some g (h x)")
    case None
    with fx r' Cons.prems(2) have "first_found f xs = Inr r" by simp
    with Cons.IH Cons.prems(1) have "r = first_some g (concat (map h xs))" by simp
    with None show ?thesis by (simp add: first_some_append)
  next
    case (Some p)
    with truthy_iff [of "h x"] have "truthy (first_some g (h x))" by simp
    with fx r' Cons.prems(2) have "r = first_some g (h x)" by simp
    with Some show ?thesis by (simp add: first_some_append)
  qed
qed

lemma find_podname_is_first:
  "find_podname_in_subtree depth nodes node_id wf_name = Inr r \<Longrightarrow>
   r = first_some (\<lambda>i. pod_name_from_node nodes i wf_name) (preorder depth nodes node_id)"
proof (induction depth arbitrary: node_id r)
  case 0
  then show ?case by simp
next
  case (Suc depth)
  let ?g = "\<lambda>i. pod_name_from_node nodes i wf_name"
  show ?case
  proof (cases "?g node_id")
    case (Some p)
    then have "truthy (?g node_id)" using pod_name_from_node_truthy by (cases p) auto
    with Suc.prems Some show ?thesis by (auto simp: Let_def)
  next
    case None
    with Suc.prems have ff: "first_found (\<lambda>c. find_podname_in_subtree depth nodes c wf_name)
        (children_of (get_node nodes node_id)) = Inr r"
      by (simp add: Let_def)
    have "r = first_some ?g
        (concat (map (preorder depth nodes) (children_of (get_node nodes node_id))))"
      by (rule first_found_first_some [OF _ _ ff]) (use Suc.IH pod_name_from_node_truthy in auto)
    with None show ?thesis by simp
  qed
qed


lemma first_found_Some_in:
  "first_found f xs = Inr (Some p) \<Longrightarrow> \<exists>x \<in> set xs. f x = Inr (Some p)"
  by (induction xs) (auto split: sum.splits if_splits)

lemma resolve_pod_name_Inr:
  assumes "resolve_pod_name depth nodes wf_name display_name = Inr pod"
  shows "\<exists>start_id \<in> set (nodes_with_display_name nodes display_name).
    find_podname_in_subtree depth nodes start_id wf_name = Inr (Some pod)"
proof -
  from assms have "first_found (\<lambda>node_id. find_podname_in_subtree depth nodes node_id wf_name)
      (nodes_with_display_name nodes display_name) = Inr (Some pod)"
    by (auto simp: resolve_pod_name_def Let_def split: if_splits sum.splits option.splits)
  then show ?thesis by (rule first_found_Some_in)
qed

text \<open>
  C10. Reconstruction returns a pod name or nothing, and never an exception (its result
  has no error): it returns nothing exactly when the template name is missing or empty,
  the node identifier does not start with the workflow name and a hyphen, or nothing
  follows that prefix. Whenever the subtree search returns, its result is the first pod
  name that the nodes of the subtree yield in depth-first order (a node that yields none
  is followed by its children, in their order); on a node map without a cycle it does
  return, given enough recursion depth. \<^verbatim>\<open>resolve_pod_name\<close> returns a pod name only if
  the search from a candidate has found it, and raises its error that lists the
  candidates exactly when there are candidates and the search from every one of them has
  returned nothing.
\<close>

theorem reconstruction_fails_softly:
  "(derive_pod_name_from_pod_node node_id wf_name template_name = None \<longleftrightarrow>
      (\<not> truthy template_name \<or> \<not> startswith node_id (wf_name @ ''-'') \<or>
       drop (length (wf_name @ ''-'')) node_id = [])) \<and>
   (\<forall>r. find_podname_in_subtree depth nodes node_id wf_name = Inr r \<longrightarrow>
      r = first_some (\<lambda>i. pod_name_from_node nodes i wf_name) (preorder depth nodes node_id)) \<and>
   ((\<forall>(parent_id, n) \<in> set nodes. \<forall>c \<in> set (children_of n). rank c < rank parent_id) \<and>
    rank node_id < depth \<longrightarrow>
      find_podname_in_subtree depth nodes node_id wf_name =
        Inr (first_some (\<lambda>i. pod_name_from_node nodes i wf_name)
               (preorder depth nodes node_id))) \<and>
   (\<forall>pod. resolve_pod_name depth nodes wf_name display_name = Inr pod \<longrightarrow>
      (\<exists>start_id \<in> set (nodes_with_display_name nodes display_name).
         find_podname_in_subtree depth nodes start_id wf_name = Inr (Some pod))) \<and>
   (resolve_pod_name depth nodes wf_name display_name =
      Inl (Raise AssertionError
             (unresolved_message nodes display_name (nodes_with_display_name nodes display_name)))
    \<longleftrightarrow>
      nodes_with_display_name nodes display_name \<noteq> [] \<and>
      (\<forall>start_id \<in> set (nodes_with_display_name nodes display_name).
         find_podname_in_subtree depth nodes start_id wf_name = Inr None))"
proof (intro conjI allI impI)
  show "derive_pod_name_from_pod_node node_id wf_name template_name = None \<longleftrightarrow>
      (\<not> truthy template_name \<or> \<not> startswith node_id (wf_name @ ''-'') \<or>
       drop (length (wf_name @ ''-'')) node_id = [])"
    by (rule derive_pod_name_None)
  show "r = first_some (\<lambda>i. pod_name_from_node nodes i wf_name) (preorder depth nodes node_id)"
    if "find_podname_in_subtree depth nodes node_id wf_name = Inr r" for r
    using that by (rule find_podname_is_first)
  show "find_podname_in_subtree depth nodes node_id wf_name =
      Inr (first_some (\<lambda>i. pod_name_from_node nodes i wf_name) (preorder depth nodes node_id))"
    if "(\<forall>(parent_id, n) \<in> set nodes. \<forall>c \<in> set (children_of n). rank c < rank parent_id) \<and>
      rank node_id < depth"
  proof -
    from that find_podname_returns [of nodes rank node_id depth wf_name]
    obtain r where r: "find_podname_in_subtree depth nodes node_id wf_name = Inr r" by blast
    from find_podname_is_first [OF r] r show ?thesis by simp
  qed
  show "\<exists>start_id \<in> set (nodes_with_display_name nodes display_name).
      find_podname_in_subtree depth nodes start_id wf_name = Inr (Some pod)"
    if "resolve_pod_name depth nodes wf_name display_name = Inr pod" for pod
    using that by (rule resolve_pod_name_Inr)
  show "resolve_pod_name depth nodes wf_name display_name =
      Inl (Raise AssertionError
             (unresolved_message nodes display_name (nodes_with_display_name nodes display_name)))
    \<longleftrightarrow>
      nodes_with_display_name nodes display_name \<noteq> [] \<and>
      (\<forall>start_id \<in> set (nodes_with_display_name nodes display_name).
         find_podname_in_subtree depth nodes start_id wf_name = Inr None)"
    by (rule resolve_unresolved_iff)
qed

lemma diamond_walk:
  "preorder (Suc (Suc (Suc 0))) diamond_nodes ''wf-a'' =
     [''wf-a'', ''wf-b'', ''wf-d'', ''wf-c'', ''wf-d'']"
  by (simp add: diamond_nodes_def get_node_def children_of_def)

lemma diamond_first:
  "first_some (\<lambda>i. pod_name_from_node diamond_nodes i ''wf'')
     [''wf-a'', ''wf-b'', ''wf-d'', ''wf-c'', ''wf-d''] = Some ''wf-run-d''"
  by (simp add: diamond_nodes_def pod_name_from_node_def get_node_def
      derive_pod_name_from_pod_node_def startswith_def Let_def)

lemma diamond_acyclic:
  "\<forall>(parent_id, n) \<in> set diamond_nodes.
     \<forall>c \<in> set (children_of n). diamond_rank c < diamond_rank parent_id"
  by (simp add: diamond_nodes_def children_of_def diamond_rank_def)

lemma stray_walk:
  "preorder (Suc (Suc 0)) stray_nodes ''wf-1'' = [''wf-1'', ''other-2'']"
  by (simp add: stray_nodes_def get_node_def children_of_def)

lemma stray_first:
  "first_some (\<lambda>i. pod_name_from_node stray_nodes i ''wf'') [''wf-1'', ''other-2''] = None"
  by (simp add: stray_nodes_def pod_name_from_node_def get_node_def
      derive_pod_name_from_pod_node_def startswith_def Let_def)

lemma stray_acyclic:
  "\<forall>(parent_id, n) \<in> set stray_nodes.
     \<forall>c \<in> set (children_of n). stray_rank c < stray_rank parent_id"
  by (simp add: stray_nodes_def children_of_def stray_rank_def)

lemma stray_candidates: "nodes_with_display_name stray_nodes ''step'' = [''wf-1'']"
  by (simp add: stray_nodes_def nodes_with_display_name_def)

lemma stray_message:
  "unresolved_message stray_nodes ''step'' [''wf-1''] =
     ''Node '' @ [CHR 0x27] @ ''step'' @ [CHR 0x27] @
     '' found, but podName not resolvable via children.'' @ [CHR 0x0A] @
     ''  - id=wf-1 type=Steps templateName=None phase=Failed children=1''"
  by (simp add: unresolved_message_def debug_line_def stray_nodes_def get_node_def
      children_of_def str_nat_small digit_char_def Let_def)

theorem reconstruction_fails_softly_witness:
  "find_podname_in_subtree (Suc (Suc (Suc 0))) diamond_nodes ''wf-a'' ''wf'' =
     Inr (Some ''wf-run-d'') \<and>
   derive_pod_name_from_pod_node ''other-2'' ''wf'' (Some ''run'') = None \<and>
   resolve_pod_name (Suc (Suc 0)) stray_nodes ''wf'' ''step'' =
     Inl (Raise AssertionError
       (''Node '' @ [CHR 0x27] @ ''step'' @ [CHR 0x27] @
        '' found, but podName not resolvable via children.'' @ [CHR 0x0A] @
        ''  - id=wf-1 type=Steps templateName=None phase=Failed children=1''))"
proof -
  note T = reconstruction_fails_softly
  have dr: "diamond_rank ''wf-a'' < Suc (Suc (Suc 0))" by (simp add: diamond_rank_def)
  have "find_podname_in_subtree (Suc (Suc (Suc 0))) diamond_nodes ''wf-a'' ''wf'' =
      Inr (first_some (\<lambda>i. pod_name_from_node diamond_nodes i ''wf'')
             (preorder (Suc (Suc (Suc 0))) diamond_nodes ''wf-a''))"
    using T [where nodes = diamond_nodes and rank = diamond_rank and node_id = "''wf-a''"
        and depth = "Suc (Suc (Suc 0))" and wf_name = "''wf''"] diamond_acyclic dr
    by blast
  then have one: "find_podname_in_subtree (Suc (Suc (Suc 0))) diamond_nodes ''wf-a'' ''wf'' =
      Inr (Some ''wf-run-d'')"
    by (simp only: diamond_walk diamond_first)
  have d: "\<not> startswith ''other-2'' (''wf'' @ ''-'')" by (simp add: startswith_def)
  have two: "derive_pod_name_from_pod_node ''other-2'' ''wf'' (Some ''run'') = None"
    using T [where node_id = "''other-2''" and wf_name = "''wf''"
        and template_name = "Some ''run''"] d by blast
  have sr: "stray_rank ''wf-1'' < Suc (Suc 0)" by (simp add: stray_rank_def)
  have "find_podname_in_subtree (Suc (Suc 0)) stray_nodes ''wf-1'' ''wf'' =
      Inr (first_some (\<lambda>i. pod_name_from_node stray_nodes i ''wf'')
             (preorder (Suc (Suc 0)) stray_nodes ''wf-1''))"
    using T [where nodes = stray_nodes and rank = stray_rank and node_id = "''wf-1''"
        and depth = "Suc (Suc 0)" and wf_name = "''wf''"] stray_acyclic sr
    by blast
  then have none: "find_podname_in_subtree (Suc (Suc 0)) stray_nodes ''wf-1'' ''wf'' = Inr None"
    by (simp only: stray_walk stray_first)
  have all: "nodes_with_display_name stray_nodes ''step'' \<noteq> [] \<and>
      (\<forall>start_id \<in> set (nodes_with_display_name stray_nodes ''step'').
         find_podname_in_subtree (Suc (Suc 0)) stray_nodes start_id ''wf'' = Inr None)"
    using none by (simp only: stray_candidates) simp
  have "resolve_pod_name (Suc (Suc 0)) stray_nodes ''wf'' ''step'' =
      Inl (Raise AssertionError (unresolved_message stray_nodes ''step''
             (nodes_with_display_name stray_nodes ''step'')))"
    using T [where nodes = stray_nodes and wf_name = "''wf''" and depth = "Suc (Suc 0)"
        and display_name = "''step''"] all by blast
  then have three: "resolve_pod_name (Suc (Suc 0)) stray_nodes ''wf'' ''step'' =
      Inl (Raise AssertionError
        (''Node '' @ [CHR 0x27] @ ''step'' @ [CHR 0x27] @
         '' found, but podName not resolvable via children.'' @ [CHR 0x0A] @
         ''  - id=wf-1 type=Steps templateName=None phase=Failed children=1''))"
    by (simp only: stray_candidates stray_message)
  from one two three show ?thesis by blast
qed

text \<open>
  C2 (amended). The subtree search keeps no set of visited nodes. On a node map whose
  children links have no cycle (every child has a smaller rank than its parent) it
  returns, with one and the same result, whenever the interpreter allows a recursion
  deeper than the rank of the start node.
\<close>

theorem find_podname_in_subtree_acyclic:
  assumes "\<forall>(parent_id, n) \<in> set nodes. \<forall>c \<in> set (children_of n). rank c < rank parent_id"
    and "rank node_id < depth"
  shows "\<exists>r. \<forall>d \<ge> depth. find_podname_in_subtree d nodes node_id wf_name = Inr r"
proof -
  from find_podname_returns [OF assms] obtain r
    where "find_podname_in_subtree depth nodes node_id wf_name = Inr r" by blast
  then have "\<forall>d \<ge> depth. find_podname_in_subtree d nodes node_id wf_name = Inr r"
    using find_podname_any_deeper by blast
  then show ?thesis ..
qed

theorem find_podname_in_subtree_acyclic_witness:
  "\<exists>r. \<forall>d \<ge> 3. find_podname_in_subtree d diamond_nodes ''wf-a'' ''wf'' = Inr r"
proof -
  have acyclic: "\<forall>(parent_id, n) \<in> set diamond_nodes.
      \<forall>c \<in> set (children_of n). diamond_rank c < diamond_rank parent_id"
    by (simp add: diamond_nodes_def children_of_def diamond_rank_def)
  have start: "diamond_rank ''wf-a'' < 3" by (simp add: diamond_rank_def)
  from find_podname_in_subtree_acyclic [OF acyclic start] show ?thesis .
qed

text \<open>
  A map with a cycle need not let the search end by itself. On \<open>cyclic_nodes\<close>, where node
  \<^verbatim>\<open>a\<close> is its own child and yields no pod name, the search from \<^verbatim>\<open>a\<close> uses up whatever
  recursion depth the interpreter allows and ends in \<^verbatim>\<open>RecursionError\<close>.
\<close>

theorem find_podname_in_subtree_cyclic:
  "\<forall>depth. find_podname_in_subtree depth cyclic_nodes ''a'' ''wf'' =
     Inl (Raise RecursionError ''maximum recursion depth exceeded'')"
proof
  fix depth
  have ev: "pod_name_from_node cyclic_nodes ''a'' ''wf'' = None"
    "children_of (get_node cyclic_nodes ''a'') = [''a'']"
    by (simp_all add: cyclic_nodes_def pod_name_from_node_def get_node_def children_of_def Let_def)
  show "find_podname_in_subtree depth cyclic_nodes ''a'' ''wf'' =
      Inl (Raise RecursionError ''maximum recursion depth exceeded'')"
  proof (induction depth)
    case 0
    show ?case by simp
  next
    case (Suc depth)
    then show ?case by (simp add: ev Let_def)
  qed
qed
subsection \<open>Log aggregation\<close>

lemma order_names_main_first: "''main'' \<in> set names \<Longrightarrow> hd (order_names names) = ''main''"
  by (simp add: order_names_def)

lemma order_names_others:
  "filter (\<lambda>n. n \<noteq> ''main'') (order_names names) = filter (\<lambda>n. n \<noteq> ''main'') names"
  by (simp add: order_names_def)

lemma order_names_no_main: "''main'' \<notin> set names \<Longrightarrow> order_names names = names"
  by (simp add: order_names_def)

lemma order_names_distinct:
  "distinct names \<Longrightarrow> distinct (order_names names) \<and> set (order_names names) = set names"
  by (auto simp: order_names_def)

lemma read_chunk_appends:
  "\<exists>lg st1. read_chunk env namespace pod_name label what c (chunks, st) =
     (chunks @ [section_text label c lg], st1)"
  by (cases "call (read_namespaced_pod_log env pod_name namespace c) st")
    (auto simp: read_chunk_def Let_def)

lemma foldl_read_chunk:
  "\<exists>logs st'. length logs = length names \<and>
     foldl (\<lambda>acc cname. read_chunk env namespace pod_name label what cname acc) (chunks, st) names =
       (chunks @ map2 (section_text label) names logs, st')"
proof (induction names arbitrary: chunks st)
  case Nil
  then show ?case by simp
next
  case (Cons c names)
  obtain lg st1 where step: "read_chunk env namespace pod_name label what c (chunks, st) =
      (chunks @ [section_text label c lg], st1)"
    using read_chunk_appends by blast
  from Cons.IH [of "chunks @ [section_text label c lg]" st1] obtain logs st'
    where "length logs = length names"
      and "foldl (\<lambda>acc cname. read_chunk env namespace pod_name label what cname acc)
             (chunks @ [section_text label c lg], st1) names =
           ((chunks @ [section_text label c lg]) @ map2 (section_text label) names logs, st')"
    by blast
  then have "length (lg # logs) = length (c # names) \<and>
      foldl (\<lambda>acc cname. read_chunk env namespace pod_name label what cname acc) (chunks, st)
        (c # names) = (chunks @ map2 (section_text label) (c # names) (lg # logs), st')"
    by (simp add: step)
  then show ?case by blast
qed


lemma filter_other_id: "x \<notin> set xs \<Longrightarrow> filter (\<lambda>y. y \<noteq> x) xs = xs"
  by (induction xs) auto

lemma length_filter_other:
  "distinct xs \<Longrightarrow> x \<in> set xs \<Longrightarrow> Suc (length (filter (\<lambda>y. y \<noteq> x) xs)) = length xs"
  by (induction xs) (auto simp: filter_other_id)

lemma order_names_length: "distinct names \<Longrightarrow> length (order_names names) = length names"
  by (simp add: order_names_def length_filter_other)

lemma map2_labelled:
  "map2 (\<lambda>(label, cname). section_text label cname) (map (Pair l) names) logs =
   map2 (section_text l) names logs"
  by (induction names arbitrary: logs) (auto simp: zip_Cons1 split: list.splits)

text \<open>
  C4 (amended). When the pod can be read, the aggregate is the concatenation of one
  section per container, the sections of the init containers first and those of the
  regular containers after them, with its leading whitespace stripped. In each of the two
  groups the names are put in the order \<open>order_names\<close>: a container named \<^verbatim>\<open>main\<close>
  comes first and the others keep their relative order; without a \<^verbatim>\<open>main\<close> the
  order is the declared one, and for distinct names no section is lost or doubled.
\<close>

theorem read_pod_logs_sections:
  assumes "call (read_namespaced_pod env pod_name namespace) st = (Inr p, st1)"
  shows "(\<exists>logs st'.
      length logs =
        length (order_names (case init_containers p of None \<Rightarrow> [] | Some xs \<Rightarrow> xs)) +
        length (order_names (case containers p of None \<Rightarrow> [] | Some xs \<Rightarrow> xs)) \<and>
      read_pod_logs env namespace pod_name st =
        (Inr (lstrip (concat (map2 (\<lambda>(label, cname). section_text label cname)
           (map (Pair ''initContainer'')
              (order_names (case init_containers p of None \<Rightarrow> [] | Some xs \<Rightarrow> xs)) @
            map (Pair ''container'')
              (order_names (case containers p of None \<Rightarrow> [] | Some xs \<Rightarrow> xs)))
           logs))), st')) \<and>
    (\<forall>names.
       (''main'' \<in> set names \<longrightarrow> hd (order_names names) = ''main'') \<and>
       filter (\<lambda>n. n \<noteq> ''main'') (order_names names) = filter (\<lambda>n. n \<noteq> ''main'') names \<and>
       (''main'' \<notin> set names \<longrightarrow> order_names names = names) \<and>
       (distinct names \<longrightarrow>
          distinct (order_names names) \<and> set (order_names names) = set names \<and>
          length (order_names names) = length names))"
proof (intro conjI allI)
  let ?ics = "case init_containers p of None \<Rightarrow> [] | Some xs \<Rightarrow> xs"
  let ?cs = "case containers p of None \<Rightarrow> [] | Some xs \<Rightarrow> xs"
  let ?I = "\<lambda>acc cname. read_chunk env namespace pod_name ''initContainer'' ''init container''
      cname acc"
  let ?C = "\<lambda>acc cname. read_chunk env namespace pod_name ''container'' ''container'' cname acc"
  obtain logs1 st2 where l1: "length logs1 = length (order_names ?ics)"
    and f1: "foldl ?I ([], st1) (order_names ?ics) =
      ([] @ map2 (section_text ''initContainer'') (order_names ?ics) logs1, st2)"
    using foldl_read_chunk [of "order_names ?ics" env namespace pod_name "''initContainer''"
        "''init container''" "[]" st1]
    by blast
  obtain logs2 st3 where l2: "length logs2 = length (order_names ?cs)"
    and f2: "foldl ?C (map2 (section_text ''initContainer'') (order_names ?ics) logs1, st2)
        (order_names ?cs) =
      (map2 (section_text ''initContainer'') (order_names ?ics) logs1 @
       map2 (section_text ''container'') (order_names ?cs) logs2, st3)"
    using foldl_read_chunk [of "order_names ?cs" env namespace pod_name "''container''"
        "''container''" "map2 (section_text ''initContainer'') (order_names ?ics) logs1" st2]
    by blast
  show "\<exists>logs st'.
      length logs = length (order_names ?ics) + length (order_names ?cs) \<and>
      read_pod_logs env namespace pod_name st =
        (Inr (lstrip (concat (map2 (\<lambda>(label, cname). section_text label cname)
           (map (Pair ''initContainer'') (order_names ?ics) @
            map (Pair ''container'') (order_names ?cs))
           logs))), st')"
  proof -
    have "length (logs1 @ logs2) = length (order_names ?ics) + length (order_names ?cs)"
      using l1 l2 by simp
    moreover have "read_pod_logs env namespace pod_name st =
        (Inr (lstrip (concat (map2 (\<lambda>(label, cname). section_text label cname)
           (map (Pair ''initContainer'') (order_names ?ics) @
            map (Pair ''container'') (order_names ?cs))
           (logs1 @ logs2)))), st3)"
      using f1 f2 l1 l2
      by (simp add: read_pod_logs_def assms Let_def map2_labelled)
    ultimately show ?thesis by blast
  qed
  fix names
  show "''main'' \<in> set names \<longrightarrow> hd (order_names names) = ''main''"
    by (simp add: order_names_main_first)
  show "filter (\<lambda>n. n \<noteq> ''main'') (order_names names) = filter (\<lambda>n. n \<noteq> ''main'') names"
    by (rule order_names_others)
  show "''main'' \<notin> set names \<longrightarrow> order_names names = names"
    by (simp add: order_names_no_main)
  show "distinct names \<longrightarrow>
      distinct (order_names names) \<and> set (order_names names) = set names \<and>
      length (order_names names) = length names"
    using order_names_distinct order_names_length by blast
qed

lemma logs_env_ops:
  "read_namespaced_pod (logs_env p) = (\<lambda>name ns w. (Inr p, w))"
  "read_namespaced_pod_log (logs_env p) = (\<lambda>name ns c w. (ran_logs c, w))"
  by (simp_all add: logs_env_def example_env_def)

theorem read_pod_logs_sections_witness:
  "(\<exists>logs st'. length logs = 3 \<and>
      read_pod_logs (logs_env sidecar_pod) ''argo'' ''pod'' start_state =
        (Inr (lstrip (concat (map2 (\<lambda>(label, cname). section_text label cname)
           [(''container'', ''main''), (''container'', ''wait''), (''container'', ''sidecar'')]
           logs))), st')) \<and>
   order_names [''wait'', ''main'', ''sidecar''] = [''main'', ''wait'', ''sidecar'']"
proof -
  have h: "call (read_namespaced_pod (logs_env sidecar_pod) ''pod'' ''argo'') start_state =
      (Inr sidecar_pod, start_state)"
    by (simp add: call_def logs_env_ops start_state_def)
  have c: "(case containers sidecar_pod of None \<Rightarrow> [] | Some xs \<Rightarrow> xs) =
      [''wait'', ''main'', ''sidecar'']"
    "(case init_containers sidecar_pod of None \<Rightarrow> [] | Some xs \<Rightarrow> xs) = []"
    by (simp_all add: sidecar_pod_def)
  have o: "order_names [''wait'', ''main'', ''sidecar''] = [''main'', ''wait'', ''sidecar'']"
    "order_names [] = []"
    by (simp_all add: order_names_def)
  from read_pod_logs_sections [OF h, THEN conjunct1]
  have "\<exists>logs st'. length logs = 3 \<and>
      read_pod_logs (logs_env sidecar_pod) ''argo'' ''pod'' start_state =
        (Inr (lstrip (concat (map2 (\<lambda>(label, cname). section_text label cname)
           [(''container'', ''main''), (''container'', ''wait''), (''container'', ''sidecar'')]
           logs))), st')"
    by (simp add: c o numeral_3_eq_3)
  with o(1) show ?thesis by blast
qed

text \<open>
  The aggregate of the pod with the init containers \<^verbatim>\<open>setup\<close> and \<^verbatim>\<open>main\<close>: the
  section of the init container \<^verbatim>\<open>main\<close> comes before that of \<^verbatim>\<open>setup\<close>, against
  their declared order.
\<close>

theorem read_pod_logs_init_reordered:
  "fst (read_pod_logs (logs_env init_main_pod) ''argo'' ''pod'' start_state) =
     Inr (''--- initContainer: main --- main ran'' @
          '' --- initContainer: setup --- setup ran'' @
          '' --- container: app --- app ran'')"
  by (simp add: read_pod_logs_def call_def logs_env_ops start_state_def init_main_pod_def
      order_names_def read_chunk_def section_text_def ran_logs_def lstrip_def is_space_def Let_def)

lemma read_pod_logs_example:
  "fst (read_pod_logs (logs_env sidecar_pod) ''argo'' ''pod'' start_state) =
     Inr (''--- container: main --- main ran'' @
          '' --- container: wait --- <failed to read container logs: gone>'' @
          '' --- container: sidecar --- sidecar ran'')"
  by (simp add: read_pod_logs_def call_def logs_env_ops start_state_def sidecar_pod_def
      order_names_def read_chunk_def section_text_def ran_logs_def lstrip_def is_space_def Let_def)

subsection \<open>Node expectations\<close>

lemma map_of_setdefault_append:
  "map_of (setdefault_append d k v) k' =
     (if k' = k then Some ((case map_of d k of None \<Rightarrow> [] | Some vs \<Rightarrow> vs) @ [v])
      else map_of d k')"
proof -
  have upd: "map_of (map (\<lambda>(k', vs'). if k' = k then (k', vs' @ [v]) else (k', vs')) d) k' =
      (if k' = k then map_option (\<lambda>vs. vs @ [v]) (map_of d k) else map_of d k')" for d
    by (induction d) auto
  show ?thesis
    by (cases "map_of d k") (auto simp: setdefault_append_def upd map_add_def split: option.splits)
qed

lemma keys_setdefault_append:
  "set (map fst (setdefault_append d k v)) = insert k (set (map fst d))"
proof -
  have "map fst (map (\<lambda>(k', vs'). if k' = k then (k', vs' @ [v]) else (k', vs')) d) = map fst d"
    by (induction d) auto
  then show ?thesis
    by (cases "map_of d k") (auto simp: setdefault_append_def dest: map_of_SomeD
        intro: rev_image_eqI)
qed

lemma by_display_fold:
  "dn \<noteq> [] \<Longrightarrow>
   map_of (foldl (\<lambda>d (node_id, n).
              case n_displayName n of
                None \<Rightarrow> d
              | Some dn \<Rightarrow> if dn = [] then d else setdefault_append d dn n) acc nodes) dn =
     (if named dn nodes = [] then map_of acc dn
      else Some ((case map_of acc dn of None \<Rightarrow> [] | Some vs \<Rightarrow> vs) @ named dn nodes))"
proof (induction nodes arbitrary: acc)
  case Nil
  then show ?case by (simp add: named_def)
next
  case (Cons x nodes)
  obtain node_id n where x: "x = (node_id, n)" by (cases x)
  show ?case
    using Cons.prems
    by (cases "n_displayName n")
      (auto simp: x Cons.IH named_def map_of_setdefault_append split: option.splits)
qed

lemma map_of_by_display:
  "dn \<noteq> [] \<Longrightarrow>
   map_of (by_display_of nodes) dn = (if named dn nodes = [] then None else Some (named dn nodes))"
  by (simp add: by_display_of_def by_display_fold)


text \<open>
  C6. For an entry that declares the phase \<open>ph\<close> and selects the display name \<open>dn\<close>:
  the phase check on the index entry of \<open>dn\<close> passes if and only if some status node
  with the display name \<open>dn\<close> has exactly the phase \<open>ph\<close>; and an entry without a
  logs check passes as a whole under the same condition.
\<close>

theorem node_phase_check:
  assumes "e_phase n = Some ph" and "ph \<noteq> []"
    and "selected_display_name n = Some dn" and "dn \<noteq> []"
  shows "(\<forall>matched. map_of (by_display_of nodes) dn = Some matched \<longrightarrow>
       (check_node_phase dn n matched = None \<longleftrightarrow>
        (\<exists>m \<in> set (map snd nodes). n_displayName m = Some dn \<and> n_phase m = Some ph))) \<and>
    (contains_of n = [] \<longrightarrow>
       (fst (check_node_expect env obj wf_ns nodes (by_display_of nodes) n st) = None \<longleftrightarrow>
        (\<exists>m \<in> set (map snd nodes). n_displayName m = Some dn \<and> n_phase m = Some ph)))"
proof -
  let ?some = "\<exists>m \<in> set (map snd nodes). n_displayName m = Some dn \<and> n_phase m = Some ph"
  have phase: "check_node_phase dn n (named dn nodes) = None \<longleftrightarrow> ?some"
    using assms(1,2) by (force simp: check_node_phase_def named_def Let_def image_iff)
  have idx: "map_of (by_display_of nodes) dn =
      (if named dn nodes = [] then None else Some (named dn nodes))"
    using assms(4) by (rule map_of_by_display)
  have a: "check_node_phase dn n matched = None \<longleftrightarrow> ?some"
    if "map_of (by_display_of nodes) dn = Some matched" for matched
    using that idx phase by (auto split: if_splits)
  have b: "fst (check_node_expect env obj wf_ns nodes (by_display_of nodes) n st) = None \<longleftrightarrow> ?some"
    if "contains_of n = []"
  proof (cases "named dn nodes = []")
    case True
    then have "\<not> ?some" by (auto simp: named_def filter_empty_conv)
    with True idx assms(3,4) show ?thesis
      by (simp add: check_node_expect_def)
  next
    case False
    with idx assms(3,4) that phase show ?thesis
      by (auto simp: check_node_expect_def check_node_logs_def Let_def split: option.splits)
  qed
  from a b show ?thesis by blast
qed

lemma retry_index:
  "map_of (by_display_of retry_nodes) ''retry-step'' = Some (map snd retry_nodes)"
  by (simp add: map_of_by_display named_def retry_nodes_def)

theorem node_phase_check_witness:
  "fst (check_node_expect (logs_env sidecar_pod) retry_workflow ''argo'' retry_nodes
          (by_display_of retry_nodes) retry_entry start_state) = None"
proof -
  have h: "e_phase retry_entry = Some ''Succeeded''" "''Succeeded'' \<noteq> []"
    "selected_display_name retry_entry = Some ''retry-step''" "''retry-step'' \<noteq> []"
    by (simp_all add: retry_entry_def selected_display_name_def)
  have c: "contains_of retry_entry = []" by (simp add: retry_entry_def contains_of_def)
  have e: "\<exists>m \<in> set (map snd retry_nodes).
      n_displayName m = Some ''retry-step'' \<and> n_phase m = Some ''Succeeded''"
    by (simp add: retry_nodes_def)
  from node_phase_check [OF h, of retry_nodes "logs_env sidecar_pod" retry_workflow "''argo''"
      start_state] c e
  show ?thesis by blast
qed

lemma retry_phases:
  "Some ''Succeeded'' \<in> (\<lambda>x. n_phase (snd x)) ` set retry_nodes"
  by (simp add: retry_nodes_def)

lemma assert_expectations_retry_example:
  "assert_expectations (logs_env sidecar_pod) retry_workflow retry_expect start_state =
     (None, start_state)"
  by (simp add: assert_expectations_def status_of_def retry_workflow_def retry_expect_def
      check_workflow_phase_def check_max_duration_def metadata_field_def retry_index
      check_node_expect_def retry_entry_def selected_display_name_def check_node_phase_def
      check_node_logs_def contains_of_def retry_phases Let_def)

text \<open>
  C9. An entry whose selector is absent or has no \<^verbatim>\<open>displayName\<close>, but which has a
  top-level \<^verbatim>\<open>displayName\<close> \<open>d\<close>, selects \<open>d\<close> and is evaluated exactly as the
  entry with the selector \<open>d\<close> would be. An entry with neither fails with the error
  that names the missing field, and so does \<^verbatim>\<open>assert_expectations\<close> when that entry
  is the first one it comes to.
\<close>

theorem node_expect_display_name:
  assumes "\<not> truthy (case e_selector n of None \<Rightarrow> None | Some sel \<Rightarrow> sel_displayName sel)"
  shows "(\<forall>d. e_displayName n = Some d \<and> d \<noteq> [] \<longrightarrow>
       selected_display_name n = Some d \<and>
       check_node_expect env obj wf_ns nodes by_display n st =
         check_node_expect env obj wf_ns nodes by_display
           (n\<lparr>e_selector := Some \<lparr>sel_displayName = Some d\<rparr>\<rparr>) st) \<and>
    (\<not> truthy (e_displayName n) \<longrightarrow>
       check_node_expect env obj wf_ns nodes by_display n st =
         (Some (Raise AssertionError
            ''Node expect entry missing displayName (use nodes[].selector.displayName)''), st) \<and>
       (\<forall>ex rest ns.
          check_workflow_phase (status_of obj) ex = None \<and>
          check_max_duration env (status_of obj) ex = None \<and>
          x_nodes ex = Some (n # rest) \<and>
          metadata_field obj md_namespace ''namespace'' = Inr ns \<longrightarrow>
          assert_expectations env obj ex st =
            (Some (Raise AssertionError
               ''Node expect entry missing displayName (use nodes[].selector.displayName)''),
             st)))"
proof (intro conjI allI impI)
  fix d
  assume d: "e_displayName n = Some d \<and> d \<noteq> []"
  with assms show sel: "selected_display_name n = Some d"
    by (simp add: selected_display_name_def)
  have sel': "selected_display_name (n\<lparr>e_selector := Some \<lparr>sel_displayName = Some d\<rparr>\<rparr>) = Some d"
    using d by (simp add: selected_display_name_def)
  show "check_node_expect env obj wf_ns nodes by_display n st =
      check_node_expect env obj wf_ns nodes by_display
        (n\<lparr>e_selector := Some \<lparr>sel_displayName = Some d\<rparr>\<rparr>) st"
    by (auto simp: check_node_expect_def sel sel' check_node_phase_def check_node_logs_def
        contains_of_def split: option.splits)
next
  assume none: "\<not> truthy (e_displayName n)"
  with assms have sel: "\<not> truthy (selected_display_name n)"
    by (simp add: selected_display_name_def)
  then have one: "check_node_expect env obj ns' nodes' by_display' n st =
      (Some (Raise AssertionError
         ''Node expect entry missing displayName (use nodes[].selector.displayName)''), st)"
    for ns' nodes' by_display'
    by (cases "selected_display_name n")
      (simp_all add: check_node_expect_def missing_display_name_message_def)
  show "check_node_expect env obj wf_ns nodes by_display n st =
      (Some (Raise AssertionError
         ''Node expect entry missing displayName (use nodes[].selector.displayName)''), st)"
    by (rule one)
  fix ex rest ns
  assume "check_workflow_phase (status_of obj) ex = None \<and>
      check_max_duration env (status_of obj) ex = None \<and>
      x_nodes ex = Some (n # rest) \<and>
      metadata_field obj md_namespace ''namespace'' = Inr ns"
  then show "assert_expectations env obj ex st =
      (Some (Raise AssertionError
         ''Node expect entry missing displayName (use nodes[].selector.displayName)''), st)"
    by (simp add: assert_expectations_def Let_def one)
qed

theorem node_expect_display_name_witness:
  "check_node_expect (logs_env sidecar_pod) retry_workflow ''argo'' retry_nodes
     (by_display_of retry_nodes) top_level_entry start_state = (None, start_state) \<and>
   assert_expectations (logs_env sidecar_pod) retry_workflow nameless_expect start_state =
     (Some (Raise AssertionError
        ''Node expect entry missing displayName (use nodes[].selector.displayName)''),
      start_state)"
proof -
  have a: "\<not> truthy (case e_selector top_level_entry of None \<Rightarrow> None
      | Some sel \<Rightarrow> sel_displayName sel)"
    "e_displayName top_level_entry = Some ''retry-step'' \<and> ''retry-step'' \<noteq> []"
    by (simp_all add: top_level_entry_def)
  have b: "\<not> truthy (case e_selector nameless_entry of None \<Rightarrow> None
      | Some sel \<Rightarrow> sel_displayName sel)"
    "\<not> truthy (e_displayName nameless_entry)"
    by (simp_all add: nameless_entry_def)
  have c1: "check_workflow_phase (status_of retry_workflow) nameless_expect = None"
    by (simp add: nameless_expect_def check_workflow_phase_def)
  have c2: "check_max_duration (logs_env sidecar_pod) (status_of retry_workflow) nameless_expect =
      None"
    by (simp add: nameless_expect_def check_max_duration_def)
  have c3: "x_nodes nameless_expect = Some (nameless_entry # [])"
    by (simp add: nameless_expect_def)
  have c4: "metadata_field retry_workflow md_namespace ''namespace'' = Inr ''argo''"
    by (simp add: metadata_field_def retry_workflow_def)
  note c = conjI [OF c1 conjI [OF c2 conjI [OF c3 c4]]]
  have with_selector: "check_node_expect (logs_env sidecar_pod) retry_workflow ''argo'' retry_nodes
       (by_display_of retry_nodes)
       (top_level_entry\<lparr>e_selector := Some \<lparr>sel_displayName = Some ''retry-step''\<rparr>\<rparr>)
       start_state = (None, start_state)"
    by (simp add: check_node_expect_def top_level_entry_def selected_display_name_def
        retry_index check_node_phase_def retry_phases check_node_logs_def contains_of_def)
  have "check_node_expect (logs_env sidecar_pod) retry_workflow ''argo'' retry_nodes
       (by_display_of retry_nodes) top_level_entry start_state =
     check_node_expect (logs_env sidecar_pod) retry_workflow ''argo'' retry_nodes
       (by_display_of retry_nodes)
       (top_level_entry\<lparr>e_selector := Some \<lparr>sel_displayName = Some ''retry-step''\<rparr>\<rparr>)
       start_state"
    using node_expect_display_name [OF a(1)] a(2) by blast
  moreover have "assert_expectations (logs_env sidecar_pod) retry_workflow nameless_expect
      start_state =
     (Some (Raise AssertionError
        ''Node expect entry missing displayName (use nodes[].selector.displayName)''),
      start_state)"
    using node_expect_display_name [OF b(1)] b(2) c by blast
  ultimately show ?thesis by (simp only: with_selector)
qed



















text \<open>A null timeout is not the default: it is read as the text \<^verbatim>\<open>None\<close>, which is no
  duration.\<close>

lemma make_scenario_null_timeout:
  "make_scenario (logs_env sidecar_pod) ''/tests/null.yaml'' (good_doc\<lparr>d_timeout := Null\<rparr>) =
     Inl (Raise ValueError
       (''invalid literal for int() with base 10: '' @ [CHR 0x27] @ ''none'' @ [CHR 0x27]))"
  by (simp add: make_scenario_def good_doc_def parse_duration_to_seconds_def string_eval
      int_eval int_error_message_def digit_run_def repr_str_def repr_char_def)

end
